theory Spec2Isabelle
  imports Main "HOL-Library.Sublist" "HOL-Library.Char_ord" "HOL-Library.List_Lexorder"
begin

section \<open>Python values used by the parser\<close>

text \<open>
  The exceptions the modelled functions can raise. \<open>SortException\<close> is the plain
  \<^verbatim>\<open>Exception("No sort tag ...")\<close> raised by the Buttons and Links code.
\<close>

datatype py_error = IndexError | KeyError | TypeError | AttributeError | SortException

definition NL :: char where
  "NL = CHR 0x0A"

text \<open>\<^verbatim>\<open>xs[i]\<close> for a non-negative index: raises IndexError out of range.\<close>

definition py_nth :: "'a list \<Rightarrow> nat \<Rightarrow> py_error + 'a" where
  "py_nth xs i = (if i < length xs then Inr (xs ! i) else Inl IndexError)"

text \<open>\<^verbatim>\<open>s.find(sub)\<close>: the least index where \<open>sub\<close> occurs, \<open>None\<close> for -1.\<close>

fun py_find :: "string \<Rightarrow> string \<Rightarrow> nat option" where
  "py_find sub [] = (if sub = [] then Some 0 else None)"
| "py_find sub (c # cs) =
     (if prefix sub (c # cs) then Some 0 else map_option Suc (py_find sub cs))"

text \<open>\<^verbatim>\<open>sub in s\<close> on strings.\<close>

definition py_in :: "string \<Rightarrow> string \<Rightarrow> bool" where
  "py_in sub s = (py_find sub s \<noteq> None)"

lemma py_find_bound: "py_find sub s = Some i \<Longrightarrow> i + length sub \<le> length s"
proof (induction s arbitrary: i)
  case Nil
  then show ?case by (simp split: if_splits)
next
  case (Cons c cs)
  show ?case
  proof (cases "prefix sub (c # cs)")
    case True
    with Cons.prems have "i = 0" by simp
    with prefix_length_le [OF True] show ?thesis by simp
  next
    case False
    with Cons.prems obtain k where "py_find sub cs = Some k" "i = Suc k" by auto
    with Cons.IH show ?thesis by fastforce
  qed
qed

text \<open>
  \<^verbatim>\<open>s.split(sep)\<close>: cut at the non-overlapping occurrences of \<open>sep\<close>, left to
  right. Python raises ValueError for an empty separator; every call site of the
  parser passes a non-empty one, and the model returns \<open>[s]\<close> there.
\<close>

function py_split :: "string \<Rightarrow> string \<Rightarrow> string list" where
  "py_split sep s =
     (case py_find sep s of
        None \<Rightarrow> [s]
      | Some i \<Rightarrow> (if sep = [] then [s]
                   else take i s # py_split sep (drop (i + length sep) s)))"
  by pat_completeness auto
termination
proof (relation "measure (\<lambda>(sep, s). length s)")
  show "wf (measure (\<lambda>(sep, s). length s))" by simp
next
  fix sep s :: string and i
  assume "py_find sep s = Some i" "sep \<noteq> []"
  then show "((sep, drop (i + length sep) s), (sep, s)) \<in> measure (\<lambda>(sep, s). length s)"
    using py_find_bound [of sep s i] by (cases sep) auto
qed

declare py_split.simps [simp del]

text \<open>\<^verbatim>\<open>sep.join(xs)\<close>.\<close>

fun py_join :: "string \<Rightarrow> string list \<Rightarrow> string" where
  "py_join sep [] = []"
| "py_join sep [x] = x"
| "py_join sep (x # y # ys) = x @ sep @ py_join sep (y # ys)"

section \<open>manage\_redirections: \<open>extract_htaccess_part\<close>\<close>

definition start_marker_of :: "string \<Rightarrow> string" where
  "start_marker_of marker = ''# BEGIN '' @ marker"

definition end_marker_of :: "string \<Rightarrow> string" where
  "end_marker_of marker = ''# END '' @ marker"

text \<open>
  The four branches of the source; the three that only log leave \<open>result\<close> empty.
  The index \<open>[1]\<close> after the first split and \<open>[0]\<close> after the second are
  Python list reads and can raise.
\<close>

definition extract_htaccess_part :: "string \<Rightarrow> string \<Rightarrow> py_error + string" where
  "extract_htaccess_part content marker =
     (let start_marker = start_marker_of marker;
          end_marker = end_marker_of marker
      in if \<not> py_in start_marker content \<and> \<not> py_in end_marker content then Inr []
         else if \<not> py_in start_marker content then Inr []
         else if \<not> py_in end_marker content then Inr []
         else (case py_nth (py_split start_marker content) 1 of
                 Inl e \<Rightarrow> Inl e
               | Inr after \<Rightarrow>
                   (case py_nth (py_split end_marker after) 0 of
                      Inl e \<Rightarrow> Inl e
                    | Inr result \<Rightarrow> Inr (py_join [NL] [start_marker, result, end_marker]))))"

text \<open>
  The claim's reading of the result: the text between the first start marker and the
  first end marker that follows it (\<open>None\<close> when there is no such pair).
\<close>

definition between_markers :: "string \<Rightarrow> string \<Rightarrow> string \<Rightarrow> string option" where
  "between_markers start_marker end_marker content =
     (case py_find start_marker content of
        None \<Rightarrow> None
      | Some i \<Rightarrow>
          (let rest = drop (i + length start_marker) content
           in case py_find end_marker rest of
                None \<Rightarrow> None
              | Some k \<Rightarrow> Some (take k rest)))"

section \<open>The DOM of the Jahia export (xml.dom.minidom)\<close>

datatype dom = Element string "(string \<times> string) list" "dom list" | TextNode string

text \<open>\<^verbatim>\<open>element.getAttribute(name)\<close>: the empty string when the attribute is absent.\<close>

fun getAttribute :: "dom \<Rightarrow> string \<Rightarrow> string" where
  "getAttribute (Element t as cs) name = (case map_of as name of None \<Rightarrow> [] | Some v \<Rightarrow> v)"
| "getAttribute (TextNode s) name = []"

fun childNodes :: "dom \<Rightarrow> dom list" where
  "childNodes (Element t as cs) = cs"
| "childNodes (TextNode s) = []"

text \<open>\<^verbatim>\<open>node.nodeType == node.ELEMENT_NODE\<close>.\<close>

fun is_element_node :: "dom \<Rightarrow> bool" where
  "is_element_node (Element t as cs) = True"
| "is_element_node (TextNode s) = False"

fun tagName :: "dom \<Rightarrow> string" where
  "tagName (Element t as cs) = t"
| "tagName (TextNode s) = []"

text \<open>All nodes below a node, in document order.\<close>

fun descendants :: "dom \<Rightarrow> dom list" where
  "descendants (Element t as cs) = concat (map (\<lambda>c. c # descendants c) cs)"
| "descendants (TextNode s) = []"

text \<open>
  \<^verbatim>\<open>element.getElementsByTagName(name)\<close>: the descendant elements with that tag, in
  document order; the name \<open>*\<close> matches every element.
\<close>

definition getElementsByTagName :: "dom \<Rightarrow> string \<Rightarrow> dom list" where
  "getElementsByTagName e name =
     filter (\<lambda>n. is_element_node n \<and> (name = ''*'' \<or> tagName n = name)) (descendants e)"

text \<open>
  Modelled from the spec: \<open>Utils.get_tag_attribute\<close>, whose file (utils.py) is not
  among the sources. The spec gives \<open>getTagAttribute(element, tagName, attrName) ->
  string (empty if absent)\<close>: the attribute of the first element with that tag below
  the given element, the empty string when there is none.
\<close>

definition get_tag_attribute :: "dom \<Rightarrow> string \<Rightarrow> string \<Rightarrow> string" where
  "get_tag_attribute e tag attribute =
     (case getElementsByTagName e tag of [] \<Rightarrow> [] | x # xs \<Rightarrow> getAttribute x attribute)"

section \<open>Box: the type resolver and the constructor\<close>

definition TYPE_TEXT :: string where "TYPE_TEXT = ''text''"
definition TYPE_ONE_COL_CONTAINER :: string where "TYPE_ONE_COL_CONTAINER = ''oneColContainer''"
definition TYPE_COLORED_TEXT :: string where "TYPE_COLORED_TEXT = ''coloredText''"
definition TYPE_PEOPLE_LIST :: string where "TYPE_PEOPLE_LIST = ''peopleList''"
definition TYPE_INFOSCIENCE :: string where "TYPE_INFOSCIENCE = ''infoscience''"
definition TYPE_INFOSCIENCE_FILTER :: string where "TYPE_INFOSCIENCE_FILTER = ''infoscienceFilter''"
definition TYPE_ACTU :: string where "TYPE_ACTU = ''actu''"
definition TYPE_MEMENTO :: string where "TYPE_MEMENTO = ''memento''"
definition TYPE_FAQ :: string where "TYPE_FAQ = ''faq''"
definition TYPE_TOGGLE :: string where "TYPE_TOGGLE = ''toggle''"
definition TYPE_INCLUDE :: string where "TYPE_INCLUDE = ''include''"
definition TYPE_CONTACT :: string where "TYPE_CONTACT = ''contact''"
definition TYPE_XML :: string where "TYPE_XML = ''xml''"
definition TYPE_LINKS :: string where "TYPE_LINKS = ''links''"
definition TYPE_RSS :: string where "TYPE_RSS = ''rss''"
definition TYPE_FILES :: string where "TYPE_FILES = ''files''"
definition TYPE_BUTTONS :: string where "TYPE_BUTTONS = ''buttons_box''"
definition TYPE_SNIPPETS :: string where "TYPE_SNIPPETS = ''snippets''"
definition TYPE_SYNTAX_HIGHLIGHT :: string where "TYPE_SYNTAX_HIGHLIGHT = ''syntaxHighlight''"
definition TYPE_KEY_VISUAL :: string where "TYPE_KEY_VISUAL = ''keyVisual''"
definition TYPE_MAP :: string where "TYPE_MAP = ''map''"
definition TYPE_GRID :: string where "TYPE_GRID = ''grid''"

lemmas box_type_defs =
  TYPE_TEXT_def TYPE_ONE_COL_CONTAINER_def TYPE_COLORED_TEXT_def TYPE_PEOPLE_LIST_def
  TYPE_INFOSCIENCE_def TYPE_INFOSCIENCE_FILTER_def TYPE_ACTU_def TYPE_MEMENTO_def
  TYPE_FAQ_def TYPE_TOGGLE_def TYPE_INCLUDE_def TYPE_CONTACT_def TYPE_XML_def
  TYPE_LINKS_def TYPE_RSS_def TYPE_FILES_def TYPE_BUTTONS_def TYPE_SNIPPETS_def
  TYPE_SYNTAX_HIGHLIGHT_def TYPE_KEY_VISUAL_def TYPE_MAP_def TYPE_GRID_def

text \<open>The class attribute \<open>types\<close>: the known Jahia box types and their tags.\<close>

definition types_table :: "(string \<times> string) list" where
  "types_table =
     [(''epfl:textBox'', TYPE_TEXT),
      (''epfl:coloredTextBox'', TYPE_COLORED_TEXT),
      (''epfl:peopleListBox'', TYPE_PEOPLE_LIST),
      (''epfl:infoscienceBox'', TYPE_INFOSCIENCE),
      (''epfl:infoscienceFilteredBox'', TYPE_INFOSCIENCE_FILTER),
      (''epfl:actuBox'', TYPE_ACTU),
      (''epfl:mementoBox'', TYPE_MEMENTO),
      (''epfl:faqBox'', TYPE_FAQ),
      (''epfl:toggleBox'', TYPE_TOGGLE),
      (''epfl:htmlBox'', TYPE_INCLUDE),
      (''epfl:contactBox'', TYPE_CONTACT),
      (''epfl:xmlBox'', TYPE_XML),
      (''epfl:linksBox'', TYPE_LINKS),
      (''epfl:rssBox'', TYPE_RSS),
      (''epfl:filesBox'', TYPE_FILES),
      (''epfl:bigButtonsBox'', TYPE_BUTTONS),
      (''epfl:smallButtonsBox'', TYPE_BUTTONS),
      (''epfl:snippetsBox'', TYPE_SNIPPETS),
      (''epfl:syntaxHighlightBox'', TYPE_SYNTAX_HIGHLIGHT),
      (''epfl:keyVisualBox'', TYPE_KEY_VISUAL),
      (''epfl:mapBox'', TYPE_MAP),
      (''epfl:gridBox'', TYPE_GRID),
      (''epfl:oneColContainer'', TYPE_ONE_COL_CONTAINER)]"

definition types :: "string \<rightharpoonup> string" where
  "types = map_of types_table"

text \<open>The canonical tags: the values of the table.\<close>

definition canonical_types :: "string list" where
  "canonical_types = remdups (map snd types_table)"

text \<open>
  The fields of a \<open>Box\<close> that the modelled methods assign. (\<open>site\<close>,
  \<open>page_content\<close> and \<open>sort_group\<close> refer to objects owned by the caller.)
\<close>

record box =
  box_type :: string
  shortcode_name :: string
  title :: string
  content :: string
  is_in_sidebar :: bool
  shortcode_attributes_to_fix :: "string list"

definition set_type :: "box \<Rightarrow> dom \<Rightarrow> box" where
  "set_type self element =
     (let type = getAttribute element ''jcr:primaryType''
      in if type = [] then self
         else (case types type of
                 Some t \<Rightarrow> self\<lparr>box_type := t\<rparr>
               | None \<Rightarrow> self\<lparr>box_type := type\<rparr>))"

text \<open>
  \<open>Box.__init__\<close>. The dispatcher \<open>set_content\<close> is a parameter: it runs the
  transformer of the box type and the three fixups, and the constructor calls it only
  when the type is not empty. An exception of \<open>set_content\<close> leaves the constructor.
\<close>

definition Box_init ::
  "(box \<Rightarrow> dom \<Rightarrow> bool \<Rightarrow> py_error + box) \<Rightarrow> dom \<Rightarrow> bool \<Rightarrow> py_error + box" where
  "Box_init set_content element multibox =
     (let self0 = \<lparr>box_type = [], shortcode_name = [], title = [], content = [],
                   is_in_sidebar = False, shortcode_attributes_to_fix = []\<rparr>;
          self1 = set_type self0 element;
          self2 = self1\<lparr>title := get_tag_attribute element ''boxTitle'' ''jahia:value'',
                        content := [], is_in_sidebar := False,
                        shortcode_attributes_to_fix := []\<rparr>
      in if box_type self2 \<noteq> [] then set_content self2 element multibox else Inr self2)"

section \<open>Box: the scheduler wrapper\<close>

text \<open>
  The two reads of \<open>_set_scheduler_box\<close> from a datetime \<open><date>T<time></date>\<close>:
  \<^verbatim>\<open>d.split("T")[0]\<close> and \<^verbatim>\<open>d.split("T")[1]\<close> when \<^verbatim>\<open>"T" in d\<close>, else the initial
  empty strings.
\<close>

definition scheduler_date :: "string \<Rightarrow> py_error + string" where
  "scheduler_date d = (if py_in ''T'' d then py_nth (py_split ''T'' d) 0 else Inr [])"

definition scheduler_time :: "string \<Rightarrow> py_error + string" where
  "scheduler_time d = (if py_in ''T'' d then py_nth (py_split ''T'' d) 1 else Inr [])"

text \<open>
  \<open>_set_scheduler_box\<close>; \<open>today\<close> is \<^verbatim>\<open>datetime.now().strftime("%Y-%m-%d")\<close>.
  The method assigns \<open>shortcode_name\<close> before anything else and returns the new
  content; strings are compared as Python compares them, lexicographically.
\<close>

definition set_scheduler_box :: "string \<Rightarrow> box \<Rightarrow> dom \<Rightarrow> string \<Rightarrow> py_error + (box \<times> string)" where
  "set_scheduler_box today self element cont =
     (let self' = self\<lparr>shortcode_name := ''epfl_scheduler''\<rparr>;
          start_datetime = get_tag_attribute element ''comboList'' ''jahia:validFrom'';
          end_datetime = get_tag_attribute element ''comboList'' ''jahia:validTo''
      in if start_datetime = [] \<and> end_datetime = [] then Inr (self', cont)
         else
          (case scheduler_date start_datetime of Inl e \<Rightarrow> Inl e | Inr start_date \<Rightarrow>
           case scheduler_time start_datetime of Inl e \<Rightarrow> Inl e | Inr start_time \<Rightarrow>
           case scheduler_date end_datetime of Inl e \<Rightarrow> Inl e | Inr end_date \<Rightarrow>
           case scheduler_time end_datetime of Inl e \<Rightarrow> Inl e | Inr end_time \<Rightarrow>
             if start_date \<noteq> [] \<and> end_date = [] \<and> start_date < today then Inr (self', cont)
             else
               (let start_date' = (if start_date = [] \<and> end_date \<noteq> [] then today else start_date)
                in Inr (self',
                     ''['' @ shortcode_name self' @ '' start_date=\"'' @ start_date'
                     @ ''\" end_date=\"'' @ end_date @ ''\" start_time=\"'' @ start_time
                     @ ''\" end_time=\"'' @ end_time @ ''\"]'' @ cont
                     @ ''[/'' @ shortcode_name self' @ '']''))))"

section \<open>Box: the parameters of a news URL\<close>

text \<open>A value that is the string \<^verbatim>\<open>""\<close> or a list of strings (themes, projects).\<close>

datatype str_or_list = Str string | StrList "string list"

text \<open>
  \<open>_extract_epfl_news_parameters\<close>, from its second statement on: \<open>parameters\<close> is the
  dictionary that \<^verbatim>\<open>parse.parse_qs(parse.urlparse(url).query)\<close> returns, each query
  parameter with the list of its values. The result is the tuple
  \<open>(channel_id, lang, template, category, themes, stickers, projects)\<close>.
\<close>

definition dict_get :: "('k \<rightharpoonup> 'v) \<Rightarrow> 'k \<Rightarrow> py_error + 'v" where
  "dict_get d k = (case d k of None \<Rightarrow> Inl KeyError | Some v \<Rightarrow> Inr v)"

definition first_value :: "(string \<rightharpoonup> string list) \<Rightarrow> string \<Rightarrow> py_error + string" where
  "first_value parameters k =
     (case dict_get parameters k of Inl e \<Rightarrow> Inl e | Inr vs \<Rightarrow> py_nth vs 0)"

definition extract_epfl_news_parameters ::
  "(string \<rightharpoonup> string list) \<Rightarrow>
   py_error + (string \<times> string \<times> string \<times> string \<times> str_or_list \<times> string \<times> str_or_list)" where
  "extract_epfl_news_parameters parameters =
     (case (if ''channel'' \<in> dom parameters then first_value parameters ''channel'' else Inr [])
      of Inl e \<Rightarrow> Inl e | Inr channel_id \<Rightarrow>
      case (if ''lang'' \<in> dom parameters
            then (case first_value parameters ''lang'' of
                    Inl e \<Rightarrow> Inl e
                  | Inr lang \<Rightarrow>
                      (let lang1 = (if lang = ''ang'' then ''en'' else lang);
                           lang2 = (if lang1 = ''fra'' then ''fr'' else lang1)
                       in Inr lang2))
            else Inr [])
      of Inl e \<Rightarrow> Inl e | Inr lang \<Rightarrow>
      case (if ''template'' \<in> dom parameters then first_value parameters ''template'' else Inr [])
      of Inl e \<Rightarrow> Inl e | Inr template \<Rightarrow>
      (let stickers = (if ''sticker'' \<in> dom parameters then ''no'' else ''yes'')
       in
      case (if ''category'' \<in> dom parameters then first_value parameters ''category'' else Inr [])
      of Inl e \<Rightarrow> Inl e | Inr category \<Rightarrow>
      case (if ''themes'' \<in> dom parameters
            then (case dict_get parameters ''theme'' of Inl e \<Rightarrow> Inl e | Inr vs \<Rightarrow> Inr (StrList vs))
            else Inr (Str []))
      of Inl e \<Rightarrow> Inl e | Inr themes \<Rightarrow>
      case (if ''project'' \<in> dom parameters
            then (case dict_get parameters ''project'' of Inl e \<Rightarrow> Inl e | Inr vs \<Rightarrow> Inr (StrList vs))
            else Inr (Str []))
      of Inl e \<Rightarrow> Inl e | Inr projects \<Rightarrow>
        Inr (channel_id, lang, template, category, themes, stickers, projects)))"

section \<open>Sorted groups\<close>

text \<open>
  A sort key is a synthetic integer index or the string value of the sort field; in
  Python an \<open>int\<close> and a \<open>str\<close> are never equal and cannot be ordered.
\<close>

datatype sort_key = IntKey nat | StrKey string

text \<open>\<^verbatim>\<open>d[k] = v\<close> on a dictionary kept in insertion order.\<close>

fun dict_set :: "('k \<times> 'v) list \<Rightarrow> 'k \<Rightarrow> 'v \<Rightarrow> ('k \<times> 'v) list" where
  "dict_set [] k v = [(k, v)]"
| "dict_set ((k', v') # d) k v =
     (if k' = k then (k, v) # d else (k', v') # dict_set d k v)"

fun key_less :: "sort_key \<Rightarrow> sort_key \<Rightarrow> bool" where
  "key_less (IntKey a) (IntKey b) = (a < b)"
| "key_less (StrKey a) (StrKey b) = (a < b)"
| "key_less _ _ = False"

text \<open>A stable insertion sort of keyed items by a strict comparison of the keys.\<close>

fun insert_item ::
  "('k \<Rightarrow> 'k \<Rightarrow> bool) \<Rightarrow> 'k \<times> 'v \<Rightarrow> ('k \<times> 'v) list \<Rightarrow> ('k \<times> 'v) list" where
  "insert_item lt x [] = [x]"
| "insert_item lt x (y # ys) =
     (if lt (fst x) (fst y) then x # y # ys else y # insert_item lt x ys)"

definition sort_items :: "('k \<Rightarrow> 'k \<Rightarrow> bool) \<Rightarrow> ('k \<times> 'v) list \<Rightarrow> ('k \<times> 'v) list" where
  "sort_items lt items = foldl (\<lambda>acc x. insert_item lt x acc) [] items"

text \<open>
  Modelled from the spec: the class \<open>BoxSortedGroup\<close>, whose file
  (parser/box\_sorted\_group.py) is not among the sources. The spec gives: a mapping
  from sort key to item plus a direction (\<open>asc\<close>/\<open>desc\<close>); a later insertion under
  the same key overwrites the earlier one; \<open>get_sorted_boxes\<close> returns the items
  ordered by key, ascending or descending per the direction, ties in insertion order,
  keys compared lexically, or numerically when they are synthetic integer indices. The
  constructor is called as \<^verbatim>\<open>BoxSortedGroup('', '', sort_way)\<close> and the callers read
  \<^verbatim>\<open>len(group.boxes)\<close>.
\<close>

record box_sorted_group =
  group_uuid :: string
  sort_field :: string
  sort_way :: string
  boxes :: "(sort_key \<times> string) list"

text \<open>
  Modelled from the spec: the constructor of \<open>BoxSortedGroup\<close>, a group without
  items.
\<close>

definition BoxSortedGroup :: "string \<Rightarrow> string \<Rightarrow> string \<Rightarrow> box_sorted_group" where
  "BoxSortedGroup uuid field way =
     \<lparr>group_uuid = uuid, sort_field = field, sort_way = way, boxes = []\<rparr>"

text \<open>
  Modelled from the spec: \<open>BoxSortedGroup.add_box_to_sort\<close> stores the item under
  the key it is given; the same key again overwrites.
\<close>

definition add_box_to_sort :: "box_sorted_group \<Rightarrow> string \<Rightarrow> sort_key \<Rightarrow> box_sorted_group" where
  "add_box_to_sort g b sort_value = g\<lparr>boxes := dict_set (boxes g) sort_value b\<rparr>"

text \<open>
  Modelled from the spec: \<open>BoxSortedGroup.get_sorted_boxes\<close>, the items ordered by
  key, in the direction of the group.
\<close>

definition get_sorted_boxes :: "box_sorted_group \<Rightarrow> string list" where
  "get_sorted_boxes g =
     map snd (sort_items (if sort_way g = ''desc'' then (\<lambda>a b. key_less b a) else key_less)
                (boxes g))"

section \<open>The collaborators of a box\<close>

record page =
  pid :: string

text \<open>
  What a box reads from outside the two source files: the page registry of the site
  (\<open>site.pages_by_uuid\<close>), the language of the page (\<open>page_content.language\<close>), the
  processing date, and three functions that are not among the sources and are taken as
  parameters: \<open>Utils.handle_custom_chars\<close>;
  \<^verbatim>\<open>BeautifulSoup(ref, "lxml").find("jahia-resource").get("default-value")\<close>, which
  raises AttributeError when there is no such tag and gives \<open>None\<close> when the tag has no
  such attribute; and the BeautifulSoup rewriting of a text that contains
  \<open>twitter-timeline\<close>.
\<close>

record env =
  pages_by_uuid :: "string \<rightharpoonup> page"
  page_language :: string
  processing_date :: string
  handle_custom_chars :: "string \<Rightarrow> string"
  jahia_resource_default_value :: "string \<Rightarrow> py_error + string option"
  twitter_timeline_transform :: "string \<Rightarrow> py_error + string"

section \<open>Box: sort descriptors\<close>

text \<open>
  \<^verbatim>\<open>sort_params.split(';')[0].split('_')[-1]\<close> (a split is never empty, so neither
  read can raise) and \<^verbatim>\<open>sort_params.split(';')[1]\<close>, which raises IndexError when the
  descriptor has no semicolon.
\<close>

definition sort_tag_of :: "string \<Rightarrow> string" where
  "sort_tag_of sort_params = last (py_split ''_'' (hd (py_split '';'' sort_params)))"

definition sort_way_of :: "string \<Rightarrow> py_error + string" where
  "sort_way_of sort_params = py_nth (py_split '';'' sort_params) 1"

text \<open>
  The sort value of one item in the Buttons and Links loops. \<open>sort_tag_name\<close> is
  \<open>None\<close> or a tag name; the value is the \<open>jahia:title\<close> of the first such tag below
  the item, and a missing tag or an empty value raises. Without a tag name the value is
  \<^verbatim>\<open>len(group.boxes)\<close>.
\<close>

definition item_sort_value ::
  "string option \<Rightarrow> dom \<Rightarrow> box_sorted_group \<Rightarrow> py_error + sort_key" where
  "item_sort_value sort_tag_name item g =
     (case sort_tag_name of
        Some tag \<Rightarrow>
          (if tag \<noteq> [] then
             (case getElementsByTagName item tag of
                [] \<Rightarrow> Inl SortException
              | t # ts \<Rightarrow>
                  (let sort_value = getAttribute t ''jahia:title''
                   in if sort_value = [] then Inl SortException
                      else Inr (StrKey sort_value)))
           else Inr (IntKey (length (boxes g))))
      | None \<Rightarrow> Inr (IntKey (length (boxes g))))"

section \<open>Box: file lists and link lists\<close>

definition file_item :: "dom \<Rightarrow> string" where
  "file_item e =
     (let file_url = ''/'' @ py_join ''/'' (drop 4 (py_split ''/'' (getAttribute e ''jahia:value'')));
          file_name = last (py_split ''/'' file_url)
      in ''<li><a href=\"'' @ file_url @ ''\">'' @ file_name @ ''</a></li>'')"

definition parse_files_to_list :: "dom \<Rightarrow> string" where
  "parse_files_to_list element =
     (let cont = ''<ul>'' @ concat (map file_item (getElementsByTagName element ''file''))
                 @ ''</ul>''
      in if cont = ''<ul></ul>'' then [] else cont)"

text \<open>
  The innermost loop of \<open>_parse_links_to_list\<close>, over the children of a \<open>link\<close>
  node, on the pair \<open>(title, url)\<close>. \<^verbatim>\<open>except KeyError: continue\<close> goes on with the
  next child of this loop.
\<close>

definition link_tag_step :: "env \<Rightarrow> string \<times> string \<Rightarrow> dom \<Rightarrow> string \<times> string" where
  "link_tag_step env st jahia_tag =
     (case st of (ttl, url) \<Rightarrow>
        if \<not> is_element_node jahia_tag then (ttl, url)
        else
          (let ttl' = (if tagName jahia_tag \<in> {''jahia:link'', ''jahia:url''}
                         then getAttribute jahia_tag ''jahia:title'' else ttl)
           in if tagName jahia_tag = ''jahia:link'' then
                (case pages_by_uuid env (getAttribute jahia_tag ''jahia:reference'') of
                   None \<Rightarrow> (ttl', url)
                 | Some p \<Rightarrow> (ttl', ''/page-'' @ pid p @ ''-'' @ page_language env @ ''.html''))
              else if tagName jahia_tag = ''jahia:url'' then
                (ttl', getAttribute jahia_tag ''jahia:value'')
              else (ttl', url)))"

text \<open>The loop over the children of one \<open>links\<close> element, on \<open>(desc, title, url)\<close>.\<close>

definition link_node_step ::
  "env \<Rightarrow> string \<times> string \<times> string \<Rightarrow> dom \<Rightarrow> string \<times> string \<times> string" where
  "link_node_step env st link_node =
     (case st of (desc, ttl, url) \<Rightarrow>
        if \<not> is_element_node link_node then (desc, ttl, url)
        else if tagName link_node = ''linkDesc'' then
          (getAttribute link_node ''jahia:value'', ttl, url)
        else if tagName link_node = ''link'' then
          (case foldl (link_tag_step env) (ttl, url) (childNodes link_node) of
             (ttl', url') \<Rightarrow> (desc, ttl', url'))
        else (desc, ttl, url))"

definition link_html :: "env \<Rightarrow> dom \<Rightarrow> string" where
  "link_html env e =
     (case foldl (link_node_step env) ([], [], []) (childNodes e) of
        (desc, ttl, url) \<Rightarrow>
          ''<li><a href=\"'' @ url @ ''\">'' @ ttl @ ''</a>'' @ desc @ ''</li>'')"

text \<open>The loop over the \<open>links\<close> elements; it stops at the first exception.\<close>

fun links_loop ::
  "env \<Rightarrow> string option \<Rightarrow> dom list \<Rightarrow> box_sorted_group \<Rightarrow> py_error + box_sorted_group" where
  "links_loop env sort_tag_name [] g = Inr g"
| "links_loop env sort_tag_name (e # es) g =
     (case item_sort_value sort_tag_name e g of
        Inl err \<Rightarrow> Inl err
      | Inr sort_value \<Rightarrow>
          links_loop env sort_tag_name es (add_box_to_sort g (link_html env e) sort_value))"

definition parse_links_to_list :: "env \<Rightarrow> dom \<Rightarrow> py_error + string" where
  "parse_links_to_list env element =
     (let sort_params = getAttribute element ''jahia:sortHandler''
      in case (if sort_params \<noteq> []
               then (case sort_way_of sort_params of
                       Inl err \<Rightarrow> Inl err
                     | Inr way \<Rightarrow> Inr (way, Some (''jahia:'' @ sort_tag_of sort_params)))
               else Inr (''asc'', None))
         of Inl err \<Rightarrow> Inl err
          | Inr (way, sort_tag_name) \<Rightarrow>
              (case links_loop env sort_tag_name (getElementsByTagName element ''links'')
                      (BoxSortedGroup [] [] way)
               of Inl err \<Rightarrow> Inl err
                | Inr links_boxes \<Rightarrow>
                    (let cont = ''<ul>'' @ concat (get_sorted_boxes links_boxes) @ ''</ul>''
                     in Inr (if cont = ''<ul></ul>'' then [] else cont))))"






section \<open>Box: text boxes\<close>

text \<open>A loop whose body can raise: it stops at the first exception.\<close>

fun fold_err :: "('s \<Rightarrow> 'a \<Rightarrow> py_error + 's) \<Rightarrow> 's \<Rightarrow> 'a list \<Rightarrow> py_error + 's" where
  "fold_err f st [] = Inr st"
| "fold_err f st (x # xs) =
     (case f st x of Inl err \<Rightarrow> Inl err | Inr st' \<Rightarrow> fold_err f st' xs)"

text \<open>
  The local function \<open>filter_and_transform\<close> of \<open>set_box_text\<close>: texts without
  \<open>twitter-timeline\<close> are returned as they are.
\<close>

definition filter_and_transform :: "env \<Rightarrow> string \<Rightarrow> py_error + string" where
  "filter_and_transform env box_content =
     (if py_in ''twitter-timeline'' box_content
      then twitter_timeline_transform env box_content
      else Inr box_content)"

text \<open>
  The variables of the loop over the \<open>comboList\<close> elements: \<open>sort_infos\<close>,
  \<open>sort_way\<close>, \<open>box_index\<close> and the dictionary \<open>box_list\<close>.
\<close>

record combo_state =
  cs_sort_infos :: string
  cs_sort_way :: string
  cs_box_index :: nat
  cs_box_list :: "(sort_key \<times> string) list"

definition combo_step :: "env \<Rightarrow> string \<Rightarrow> combo_state \<Rightarrow> dom \<Rightarrow> py_error + combo_state" where
  "combo_step env sort_fld st combo =
     (case parse_links_to_list env combo of
        Inl err \<Rightarrow> Inl err
      | Inr links \<Rightarrow>
          (let box_content = get_tag_attribute combo ''text'' ''jahia:value''
                             @ parse_files_to_list combo @ links
           in if box_content = [] then Inr st
              else if cs_sort_infos st \<noteq> [] then
                (let box_key = getAttribute combo (''jcr:'' @ sort_fld)
                 in if box_key = [] then
                      Inr (st\<lparr>cs_sort_infos := [], cs_sort_way := ''asc'',
                              cs_box_index := cs_box_index st + 1,
                              cs_box_list := dict_set (cs_box_list st)
                                               (IntKey (cs_box_index st)) box_content\<rparr>)
                    else
                      Inr (st\<lparr>cs_box_list := dict_set (cs_box_list st)
                                               (StrKey box_key) box_content\<rparr>))
              else
                Inr (st\<lparr>cs_box_index := cs_box_index st + 1,
                        cs_box_list := dict_set (cs_box_list st)
                                         (IntKey (cs_box_index st)) box_content\<rparr>)))"

fun is_int_key :: "sort_key \<Rightarrow> bool" where
  "is_int_key (IntKey n) = True"
| "is_int_key (StrKey s) = False"

text \<open>
  \<^verbatim>\<open>sorted(box_list.items(), reverse=...)\<close>: the items are pairs (key, content) and
  the keys of a dictionary are distinct, so the order is that of the keys. Python
  cannot order an \<open>int\<close> and a \<open>str\<close>: when both kinds are among the keys, sorting
  compares two of different kinds and raises TypeError.
\<close>

definition py_sorted_items ::
  "bool \<Rightarrow> (sort_key \<times> string) list \<Rightarrow> py_error + (sort_key \<times> string) list" where
  "py_sorted_items reverse items =
     (if list_all (\<lambda>x. is_int_key (fst x)) items \<or> list_all (\<lambda>x. \<not> is_int_key (fst x)) items
      then Inr (sort_items (if reverse then (\<lambda>a b. key_less b a) else key_less) items)
      else Inl TypeError)"

text \<open>\<^verbatim>\<open>for ... : content += filter_and_transform(box_content)\<close>.\<close>

definition transform_step :: "env \<Rightarrow> string \<Rightarrow> string \<Rightarrow> py_error + string" where
  "transform_step env acc box_content =
     (case filter_and_transform env box_content of
        Inl err \<Rightarrow> Inl err
      | Inr t \<Rightarrow> Inr (acc @ t))"

definition set_box_text :: "env \<Rightarrow> box \<Rightarrow> dom \<Rightarrow> bool \<Rightarrow> py_error + box" where
  "set_box_text env self element multibox =
     (if \<not> multibox then
        (case filter_and_transform env (get_tag_attribute element ''text'' ''jahia:value'') of
           Inl err \<Rightarrow> Inl err
         | Inr c0 \<Rightarrow>
             (let c1 = (case getElementsByTagName element ''filesList'' of
                          [] \<Rightarrow> c0
                        | f # fs \<Rightarrow> c0 @ parse_files_to_list f)
              in case getElementsByTagName element ''linksList'' of
                   [] \<Rightarrow> Inr (self\<lparr>content := c1\<rparr>)
                 | l # ls \<Rightarrow>
                     (case parse_links_to_list env l of
                        Inl err \<Rightarrow> Inl err
                      | Inr links \<Rightarrow> Inr (self\<lparr>content := c1 @ links\<rparr>))))
      else
        (let sort_infos = get_tag_attribute element ''comboListList'' ''jahia:sortHandler''
         in case (if sort_infos \<noteq> []
                  then (case sort_way_of sort_infos of
                          Inl err \<Rightarrow> Inl err
                        | Inr way \<Rightarrow> Inr (hd (py_split '';'' sort_infos), way))
                  else Inr ([], ''asc''))
            of Inl err \<Rightarrow> Inl err
             | Inr (sort_fld, way) \<Rightarrow>
                 (case fold_err (combo_step env sort_fld)
                         \<lparr>cs_sort_infos = sort_infos, cs_sort_way = way,
                          cs_box_index = 0, cs_box_list = []\<rparr>
                         (getElementsByTagName element ''comboList'')
                  of Inl err \<Rightarrow> Inl err
                   | Inr st \<Rightarrow>
                       (case py_sorted_items (cs_sort_way st = ''desc'') (cs_box_list st) of
                          Inl err \<Rightarrow> Inl err
                        | Inr sorted_list \<Rightarrow>
                            (case fold_err (transform_step env) [] (map snd sorted_list) of
                               Inl err \<Rightarrow> Inl err
                             | Inr cont \<Rightarrow>
                                 if get_tag_attribute element ''comboList'' ''jahia:ruleType''
                                      = ''START_AND_END_DATE''
                                 then (case set_scheduler_box (processing_date env) self element cont of
                                         Inl err \<Rightarrow> Inl err
                                       | Inr (self', cont') \<Rightarrow> Inr (self'\<lparr>content := cont'\<rparr>))
                                 else Inr (self\<lparr>content := cont\<rparr>))))))"

section \<open>Box: buttons\<close>

text \<open>
  \<open>_get_button_shortcode\<close>. \<open>small_button_key\<close> is a string or Python's \<open>None\<close>
  (a \<open>jahia-resource\<close> without \<open>default-value\<close>), which \<open>format\<close> prints as \<open>None\<close>.
\<close>

definition get_button_shortcode ::
  "env \<Rightarrow> string \<Rightarrow> string \<Rightarrow> string \<Rightarrow> string \<Rightarrow> string \<Rightarrow> string option \<Rightarrow> string" where
  "get_button_shortcode env box_kind url alt_text text_v big_button_image_url small_button_key =
     (let img_url = (if big_button_image_url \<noteq> []
                   then ''image=\"'' @ big_button_image_url @ ''\"''
                   else big_button_image_url);
          key = (case small_button_key of
                   None \<Rightarrow> ''None''
                 | Some k \<Rightarrow> if k \<noteq> [] then ''key=\"'' @ k @ ''\"'' else k);
          text' = handle_custom_chars env text_v;
          alt_text' = handle_custom_chars env alt_text
      in ''[epfl_buttons type=\"'' @ box_kind @ ''\" url=\"'' @ url @ ''\" '' @ img_url
         @ '' alt_text=\"'' @ alt_text' @ ''\" text=\"'' @ text' @ ''\" '' @ key @ '']'')"

text \<open>
  The loop over the children of the \<open>url\<close> node of a big button, on \<open>(text, url)\<close>;
  \<^verbatim>\<open>except KeyError: continue\<close> goes on with the next child.
\<close>

definition big_button_tag_step :: "env \<Rightarrow> string \<times> string \<Rightarrow> dom \<Rightarrow> string \<times> string" where
  "big_button_tag_step env st jahia_tag =
     (case st of (text_v, url) \<Rightarrow>
        if \<not> is_element_node jahia_tag then (text_v, url)
        else
          (let text' = getAttribute jahia_tag ''jahia:title''
           in if tagName jahia_tag = ''jahia:link'' then
                (case pages_by_uuid env (getAttribute jahia_tag ''jahia:reference'') of
                   None \<Rightarrow> (text', url)
                 | Some p \<Rightarrow> (text', ''/page-'' @ pid p @ ''-'' @ page_language env @ ''.html''))
              else if tagName jahia_tag = ''jahia:url'' then
                (text', getAttribute jahia_tag ''jahia:value'')
              else (text', url)))"

text \<open>
  The loop over the children of one button, on
  \<open>(url, alt_text, text, big_button_image_url, small_button_key)\<close>.
\<close>

definition button_child_step ::
  "env \<Rightarrow> string \<Rightarrow> string \<times> string \<times> string \<times> string \<times> string option \<Rightarrow> dom
   \<Rightarrow> py_error + (string \<times> string \<times> string \<times> string \<times> string option)" where
  "button_child_step env box_kind st child =
     (case st of (url, alt_text, text_v, img_url, key) \<Rightarrow>
        if \<not> is_element_node child then Inr st
        else if tagName child = ''label'' then
          Inr (url, getAttribute child ''jahia:value'', text_v, img_url, key)
        else if tagName child = ''url'' then
          (if box_kind = ''small'' then
             Inr (getAttribute child ''jahia:value'', alt_text, text_v, img_url, key)
           else if box_kind = ''big'' then
             (case foldl (big_button_tag_step env) (text_v, url) (childNodes child) of
                (text', url') \<Rightarrow> Inr (url', alt_text, text', img_url, key))
           else Inr st)
        else if tagName child = ''image'' then
          Inr (url, alt_text, text_v,
               ''/'' @ py_join ''/'' (drop 4 (py_split ''/'' (getAttribute child ''jahia:value''))),
               key)
        else if tagName child = ''type'' then
          (case jahia_resource_default_value env (getAttribute child ''jahia:value'') of
             Inl err \<Rightarrow> Inl err
           | Inr k \<Rightarrow> Inr (url, alt_text, text_v, img_url, k))
        else Inr st)"

definition button_step ::
  "env \<Rightarrow> string \<Rightarrow> string option \<Rightarrow> box_sorted_group \<Rightarrow> dom \<Rightarrow> py_error + box_sorted_group" where
  "button_step env box_kind sort_tag_name g button_list =
     (case item_sort_value sort_tag_name button_list g of
        Inl err \<Rightarrow> Inl err
      | Inr sort_value \<Rightarrow>
          (case fold_err (button_child_step env box_kind) ([], [], [], [], Some [])
                  (childNodes button_list)
           of Inl err \<Rightarrow> Inl err
            | Inr (url, alt_text, text_v, img_url, key) \<Rightarrow>
                (let text' = (if box_kind = ''small'' \<and> text_v = [] then alt_text else text_v)
                 in Inr (add_box_to_sort g
                           (get_button_shortcode env box_kind url alt_text text' img_url key)
                           sort_value))))"

definition buttons_kind :: "dom \<Rightarrow> string" where
  "buttons_kind element =
     (if py_in ''small'' (getAttribute element ''jcr:primaryType'') then ''small'' else ''big'')"

definition buttons_container_name :: "string \<Rightarrow> string" where
  "buttons_container_name box_kind =
     (if box_kind = ''small'' then ''smallButtonListList'' else ''bigButtonListList'')"

definition buttons_element_name :: "string \<Rightarrow> string" where
  "buttons_element_name box_kind =
     (if box_kind = ''small'' then ''smallButtonList'' else ''bigButtonList'')"

text \<open>
  The body of \<open>set_box_buttons\<close> from the read of \<open>jcr:primaryType\<close> to the value
  assigned to \<open>self.content\<close>. (The local \<open>content\<close> built from the title is
  overwritten before it is used.)
\<close>

definition buttons_content :: "env \<Rightarrow> dom \<Rightarrow> py_error + string" where
  "buttons_content env element =
     (let box_kind = buttons_kind element
      in case py_nth (getElementsByTagName element (buttons_container_name box_kind)) 0 of
           Inl err \<Rightarrow> Inl err
         | Inr container \<Rightarrow>
             (let sort_params = getAttribute container ''jahia:sortHandler''
              in case (if sort_params \<noteq> []
                       then (case sort_way_of sort_params of
                               Inl err \<Rightarrow> Inl err
                             | Inr way \<Rightarrow> Inr (way, Some (''jahia:'' @ sort_tag_of sort_params)))
                       else Inr (''asc'', None))
                 of Inl err \<Rightarrow> Inl err
                  | Inr (way, sort_tag_name) \<Rightarrow>
                      (case fold_err (button_step env box_kind sort_tag_name)
                              (BoxSortedGroup [] [] way)
                              (getElementsByTagName element (buttons_element_name box_kind))
                       of Inl err \<Rightarrow> Inl err
                        | Inr button_boxes \<Rightarrow>
                            Inr (''[epfl_buttons_container]''
                                 @ concat (get_sorted_boxes button_boxes)
                                 @ ''[/epfl_buttons_container]''))))"

text \<open>
  \<open>set_box_buttons\<close>: the box after the call and the exception that left it, if any.
  \<open>shortcode_name\<close> is assigned first; \<open>content\<close> is assigned by the last statement.
  (The registration of the shortcode is an effect on the site, which no modelled
  function reads.)
\<close>

definition set_box_buttons :: "env \<Rightarrow> box \<Rightarrow> dom \<Rightarrow> box \<times> py_error option" where
  "set_box_buttons env self element =
     (let self1 = self\<lparr>shortcode_name := ''epfl_buttons''\<rparr>
      in case buttons_content env element of
           Inl err \<Rightarrow> (self1, Some err)
         | Inr c \<Rightarrow> (self1\<lparr>content := c\<rparr>, None))"

section \<open>Box: snippets\<close>










section \<open>Box: the video fixup of the generated content\<close>

text \<open>
  \<open>fix_video_iframes\<close> works on the tree that BeautifulSoup (html5lib) builds from
  the content; the tree has the shape of \<open>dom\<close>. \<open>tag.get(name)\<close> is \<open>None\<close> when the
  attribute is absent.
\<close>

fun tag_get :: "dom \<Rightarrow> string \<Rightarrow> string option" where
  "tag_get (Element t as cs) name = map_of as name"
| "tag_get (TextNode s) name = None"

text \<open>
  \<^verbatim>\<open>src and ('youtube.com' in src or 'youtu.be' in src or 'player.vimeo.com' in src)\<close>.
\<close>

definition is_video_src :: "string option \<Rightarrow> bool" where
  "is_video_src src =
     (case src of
        None \<Rightarrow> False
      | Some u \<Rightarrow> u \<noteq> [] \<and> (py_in ''youtube.com'' u \<or> py_in ''youtu.be'' u
                               \<or> py_in ''player.vimeo.com'' u))"

definition video_shortcode :: "string \<Rightarrow> string" where
  "video_shortcode src = ''[epfl_video url=\"'' @ src @ ''\"]''"

text \<open>
  The loop over \<^verbatim>\<open>soup.find_all('iframe')\<close>: every iframe of the tree whose \<open>src\<close>
  passes the test is replaced by the shortcode as a text node; what is below a replaced
  iframe leaves the tree with it.
\<close>

fun replace_video_iframes :: "dom \<Rightarrow> dom" where
  "replace_video_iframes (TextNode s) = TextNode s"
| "replace_video_iframes (Element t as cs) =
     (if t = ''iframe'' \<and> is_video_src (map_of as ''src'')
      then TextNode (video_shortcode (the (map_of as ''src'')))
      else Element t as (map replace_video_iframes cs))"

text \<open>
  \<open>fix_video_iframes\<close>, with the two BeautifulSoup steps as parameters: \<open>parse\<close> gives
  \<open>soup.body\<close> for a content, \<open>render\<close> is \<^verbatim>\<open>str(soup.body)\<close> with the body tag
  hidden.
\<close>

definition fix_video_iframes :: "(string \<Rightarrow> dom) \<Rightarrow> (dom \<Rightarrow> string) \<Rightarrow> box \<Rightarrow> box" where
  "fix_video_iframes parse render self =
     self\<lparr>content := render (replace_video_iframes (parse (content self)))\<rparr>"

text \<open>
  Positions in a tree: the node reached from the root by a list of child indices.
\<close>

fun subtree_at :: "dom \<Rightarrow> nat list \<Rightarrow> dom option" where
  "subtree_at d [] = Some d"
| "subtree_at (TextNode s) (i # p) = None"
| "subtree_at (Element t as cs) (i # p) =
     (if i < length cs then subtree_at (cs ! i) p else None)"

text \<open>
  The node at a position that is not below an iframe whose \<open>src\<close> passes the test of
  the code (such a position leaves the tree with the iframe above it).
\<close>

fun visible_at :: "dom \<Rightarrow> nat list \<Rightarrow> dom option" where
  "visible_at d [] = Some d"
| "visible_at (TextNode s) (i # p) = None"
| "visible_at (Element t as cs) (i # p) =
     (if t = ''iframe'' \<and> is_video_src (map_of as ''src'') then None
      else if i < length cs then visible_at (cs ! i) p else None)"

text \<open>
  The claim's reading of the test: the host of the \<open>src\<close> URL (what stands between
  \<open>://\<close> and the next \<open>/\<close>, \<open>?\<close> or \<open>#\<close>) is one of the video hosts or a subdomain of
  one.
\<close>

definition url_host :: "string \<Rightarrow> string" where
  "url_host u =
     takeWhile (\<lambda>c. c \<noteq> CHR ''/'' \<and> c \<noteq> CHR ''?'' \<and> c \<noteq> CHR ''#'')
       (case py_find ''://'' u of Some i \<Rightarrow> drop (i + 3) u | None \<Rightarrow> u)"

definition video_hosts :: "string list" where
  "video_hosts = [''youtube.com'', ''youtu.be'', ''player.vimeo.com'']"

definition host_allowed :: "string \<Rightarrow> bool" where
  "host_allowed h = list_ex (\<lambda>d. h = d \<or> suffix (''.'' @ d) h) video_hosts"

text \<open>The iframes of a tree whose \<open>src\<close> passes the test of the code.\<close>

definition video_iframes :: "dom \<Rightarrow> dom list" where
  "video_iframes d =
     filter (\<lambda>n. is_element_node n \<and> tagName n = ''iframe'' \<and> is_video_src (tag_get n ''src''))
       (d # descendants d)"

section \<open>Facts about the string primitives\<close>

lemma py_find_prefix: "py_find sub s = Some i \<Longrightarrow> prefix sub (drop i s)"
proof (induction s arbitrary: i)
  case Nil
  then show ?case by (simp split: if_splits)
next
  case (Cons c cs)
  then show ?case by (cases "prefix sub (c # cs)") auto
qed

lemma py_find_occurs:
  "prefix sub (drop i s) \<Longrightarrow> i \<le> length s \<Longrightarrow> py_find sub s \<noteq> None"
proof (induction s arbitrary: i)
  case Nil
  then show ?case by simp
next
  case (Cons c cs)
  show ?case
  proof (cases i)
    case 0
    with Cons.prems show ?thesis by simp
  next
    case (Suc n)
    with Cons.prems have "prefix sub (drop n cs)" "n \<le> length cs" by simp_all
    with Cons.IH have "py_find sub cs \<noteq> None" by blast
    then show ?thesis by auto
  qed
qed

lemma prefix_take_ge:
  assumes "prefix sub s" and "length sub \<le> j"
  shows "prefix sub (take j s)"
proof -
  from assms(1) obtain t where "s = sub @ t" by (auto simp: prefix_def)
  with assms(2) show ?thesis by simp
qed

lemma prefix_of_take: "prefix sub (take j s) \<Longrightarrow> prefix sub s"
  using take_is_prefix prefix_order.trans by blast

lemma py_find_take:
  "py_find sub s = Some k \<Longrightarrow> k + length sub \<le> j \<Longrightarrow> py_find sub (take j s) = Some k"
proof (induction s arbitrary: k j)
  case Nil
  then show ?case by (simp split: if_splits)
next
  case (Cons c cs)
  show ?case
  proof (cases "prefix sub (c # cs)")
    case True
    with Cons.prems have k: "k = 0" by simp
    with Cons.prems have "length sub \<le> j" by simp
    from prefix_take_ge [OF True this] have p: "prefix sub (take j (c # cs))" .
    show ?thesis
    proof (cases "take j (c # cs)")
      case Nil
      with p have "sub = []" by simp
      with Nil k show ?thesis by simp
    next
      case (Cons d ds)
      with p k show ?thesis by simp
    qed
  next
    case False
    with Cons.prems obtain k' where k': "py_find sub cs = Some k'" "k = Suc k'" by auto
    with Cons.prems obtain j' where j': "j = Suc j'" by (cases j) auto
    with k' Cons.prems have "k' + length sub \<le> j'" by simp
    with Cons.IH k' have "py_find sub (take j' cs) = Some k'" by blast
    moreover have "\<not> prefix sub (c # take j' cs)"
      using False prefix_of_take [of sub "Suc j'" "c # cs"] by auto
    ultimately show ?thesis using j' k' by simp
  qed
qed

lemma py_split_not_Nil: "py_split sep s \<noteq> []"
  by (subst py_split.simps) (simp split: option.splits)

lemma hd_py_split:
  "sep \<noteq> [] \<Longrightarrow>
   hd (py_split sep s) = (case py_find sep s of None \<Rightarrow> s | Some i \<Rightarrow> take i s)"
  by (subst py_split.simps) (simp split: option.splits)

lemma py_split_found:
  "sep \<noteq> [] \<Longrightarrow> py_find sep s = Some i \<Longrightarrow>
   py_split sep s = take i s # py_split sep (drop (i + length sep) s)"
  by (subst py_split.simps) simp

lemma py_nth_0_split: "py_nth (py_split sep s) 0 = Inr (hd (py_split sep s))"
  using py_split_not_Nil [of sep s] by (cases "py_split sep s") (simp_all add: py_nth_def)

lemma py_nth_1_split:
  assumes "sep \<noteq> []" and "py_find sep s = Some i"
  shows "py_nth (py_split sep s) (Suc 0) = Inr (hd (py_split sep (drop (i + length sep) s)))"
proof -
  obtain x xs where "py_split sep (drop (i + length sep) s) = x # xs"
    using py_split_not_Nil [of sep "drop (i + length sep) s"]
    by (cases "py_split sep (drop (i + length sep) s)") auto
  with py_split_found [OF assms] show ?thesis by (simp add: py_nth_def)
qed

section \<open>Results for \<open>extract_htaccess_part\<close>\<close>

lemma start_marker_not_Nil: "start_marker_of m \<noteq> []"
  by (simp add: start_marker_of_def)

lemma end_marker_not_Nil: "end_marker_of m \<noteq> []"
  by (simp add: end_marker_of_def)

lemma extract_htaccess_part_value:
  assumes "py_find (start_marker_of m) c = Some i"
    and "py_in (end_marker_of m) c"
  shows "extract_htaccess_part c m =
     Inr (py_join [NL]
       [start_marker_of m,
        hd (py_split (end_marker_of m)
              (hd (py_split (start_marker_of m) (drop (i + length (start_marker_of m)) c)))),
        end_marker_of m])"
proof -
  from assms(1) have "py_in (start_marker_of m) c" by (simp add: py_in_def)
  with assms(2) show ?thesis
    unfolding extract_htaccess_part_def Let_def
    by (simp add: py_nth_1_split [OF start_marker_not_Nil assms(1)] py_nth_0_split)
qed

lemma end_marker_in_content:
  assumes "py_find (end_marker_of m) (drop n c) = Some k"
  shows "py_in (end_marker_of m) c"
proof -
  from py_find_prefix [OF assms] have p: "prefix (end_marker_of m) (drop (n + k) c)"
    by (simp add: add.commute)
  have "n + k \<le> length c"
  proof (rule ccontr)
    assume "\<not> n + k \<le> length c"
    then have "drop (n + k) c = []" by simp
    with p end_marker_not_Nil [of m] show False by simp
  qed
  with py_find_occurs [OF p] show ?thesis by (simp add: py_in_def)
qed

text \<open>
  Claim C10, as stated, at a content where a second start marker stands before the end
  marker: the text between the first start marker and the first end marker after it is
  \<open>|a|# BEGIN m|b|\<close>, and the function returns only \<open>|a|\<close> between the markers.
\<close>

theorem extract_htaccess_part_counterexample:
  "py_in (start_marker_of ''m'') ''# BEGIN m|a|# BEGIN m|b|# END m''
   \<and> py_in (end_marker_of ''m'') ''# BEGIN m|a|# BEGIN m|b|# END m''
   \<and> between_markers (start_marker_of ''m'') (end_marker_of ''m'')
        ''# BEGIN m|a|# BEGIN m|b|# END m'' = Some ''|a|# BEGIN m|b|''
   \<and> extract_htaccess_part ''# BEGIN m|a|# BEGIN m|b|# END m'' ''m''
        = Inr (py_join [NL] [''# BEGIN m'', ''|a|'', ''# END m''])
   \<and> extract_htaccess_part ''# BEGIN m|a|# BEGIN m|b|# END m'' ''m''
        \<noteq> Inr (py_join [NL] [''# BEGIN m'', ''|a|# BEGIN m|b|'', ''# END m''])"
  by (simp add: extract_htaccess_part_def between_markers_def py_in_def py_nth_def
      start_marker_of_def end_marker_of_def py_split.simps)

text \<open>
  Claim C10, amended: for every content and marker \<open>extract_htaccess_part\<close> returns
  without raising; it returns the empty string unless both markers occur in the content;
  when both occur the result is the start marker, a text and the end marker joined by
  newlines; and when the first start marker is followed by an end marker and no further
  start marker begins before that end marker is complete, the text is the one between
  the first start marker and the first end marker following it. (The model is a pure
  function of the content, which is not modified.)
\<close>

theorem extract_htaccess_part_amended:
  "(\<exists>r. extract_htaccess_part c m = Inr r)
   \<and> (\<not> (py_in (''# BEGIN '' @ m) c \<and> py_in (''# END '' @ m) c) \<longrightarrow>
      extract_htaccess_part c m = Inr [])
   \<and> (py_in (''# BEGIN '' @ m) c \<and> py_in (''# END '' @ m) c \<longrightarrow>
      (\<exists>seg. extract_htaccess_part c m =
         Inr ((''# BEGIN '' @ m) @ [CHR 0x0A] @ seg @ [CHR 0x0A] @ (''# END '' @ m))))
   \<and> (py_find (''# BEGIN '' @ m) c = Some i
      \<and> py_find (''# END '' @ m) (drop (i + length (''# BEGIN '' @ m)) c) = Some k
      \<and> (\<forall>j. py_find (''# BEGIN '' @ m) (drop (i + length (''# BEGIN '' @ m)) c) = Some j
             \<longrightarrow> k + length (''# END '' @ m) \<le> j)
      \<longrightarrow> between_markers (''# BEGIN '' @ m) (''# END '' @ m) c
            = Some (take k (drop (i + length (''# BEGIN '' @ m)) c))
          \<and> extract_htaccess_part c m =
            Inr ((''# BEGIN '' @ m) @ [CHR 0x0A]
                 @ take k (drop (i + length (''# BEGIN '' @ m)) c)
                 @ [CHR 0x0A] @ (''# END '' @ m)))"
proof -
  let ?s = "start_marker_of m" and ?e = "end_marker_of m"
  have s: "''# BEGIN '' @ m = ?s" and e: "''# END '' @ m = ?e"
    by (simp_all add: start_marker_of_def end_marker_of_def)
  have none: "extract_htaccess_part c m = Inr []" if "\<not> (py_in ?s c \<and> py_in ?e c)"
    using that by (auto simp: extract_htaccess_part_def Let_def)
  have both: "\<exists>seg. extract_htaccess_part c m = Inr (?s @ [CHR 0x0A] @ seg @ [CHR 0x0A] @ ?e)"
    if "py_in ?s c \<and> py_in ?e c"
  proof -
    from that obtain i' where "py_find ?s c = Some i'" by (auto simp: py_in_def)
    from extract_htaccess_part_value [OF this] that show ?thesis
      by (simp add: NL_def)
  qed
  have total: "\<exists>r. extract_htaccess_part c m = Inr r"
    using none both by (cases "py_in ?s c \<and> py_in ?e c") blast+
  have struct: "between_markers ?s ?e c = Some (take k (drop (i + length ?s) c))
          \<and> extract_htaccess_part c m =
            Inr (?s @ [CHR 0x0A] @ take k (drop (i + length ?s) c) @ [CHR 0x0A] @ ?e)"
    if h: "py_find ?s c = Some i \<and> py_find ?e (drop (i + length ?s) c) = Some k
      \<and> (\<forall>j. py_find ?s (drop (i + length ?s) c) = Some j \<longrightarrow> k + length ?e \<le> j)"
  proof -
    define rest where "rest = drop (i + length ?s) c"
    from h have fs: "py_find ?s c = Some i"
      and fe: "py_find ?e rest = Some k"
      and nos: "\<And>j. py_find ?s rest = Some j \<Longrightarrow> k + length ?e \<le> j"
      by (simp_all add: rest_def)
    have "py_in ?e c"
      using end_marker_in_content fe unfolding rest_def by blast
    from extract_htaccess_part_value [OF fs this]
    have v: "extract_htaccess_part c m =
       Inr (py_join [NL] [?s, hd (py_split ?e (hd (py_split ?s rest))), ?e])"
      by (simp add: rest_def)
    have "hd (py_split ?e (hd (py_split ?s rest))) = take k rest"
    proof (cases "py_find ?s rest")
      case None
      then have "hd (py_split ?s rest) = rest"
        by (simp add: hd_py_split [OF start_marker_not_Nil])
      with fe show ?thesis by (simp add: hd_py_split [OF end_marker_not_Nil])
    next
      case (Some j)
      then have s1: "hd (py_split ?s rest) = take j rest"
        by (simp add: hd_py_split [OF start_marker_not_Nil])
      from nos [OF Some] have kj: "k + length ?e \<le> j" .
      from py_find_take [OF fe kj] have "py_find ?e (take j rest) = Some k" .
      with s1 kj show ?thesis
        by (simp add: hd_py_split [OF end_marker_not_Nil] min_def)
    qed
    with v have "extract_htaccess_part c m =
            Inr (?s @ [CHR 0x0A] @ take k rest @ [CHR 0x0A] @ ?e)"
      by (simp add: NL_def)
    moreover from fs fe have "between_markers ?s ?e c = Some (take k rest)"
      by (simp add: between_markers_def rest_def)
    ultimately show ?thesis by (simp add: rest_def)
  qed
  show ?thesis
    unfolding s e using total none both struct by blast
qed

theorem extract_htaccess_part_amended_witness:
  "py_find (''# BEGIN '' @ ''m'') ''x# BEGIN m|a|# END m|y'' = Some 1
   \<and> py_find (''# END '' @ ''m'') (drop (1 + length (''# BEGIN '' @ ''m'')) ''x# BEGIN m|a|# END m|y'') = Some 3
   \<and> extract_htaccess_part ''x# BEGIN m|a|# END m|y'' ''m''
       = Inr (''# BEGIN m'' @ [CHR 0x0A] @ ''|a|'' @ [CHR 0x0A] @ ''# END m'')
   \<and> extract_htaccess_part ''no marker here'' ''m'' = Inr []
   \<and> py_in (''# BEGIN '' @ ''m'') ''# END m|x|# BEGIN m''
   \<and> py_in (''# END '' @ ''m'') ''# END m|x|# BEGIN m''
   \<and> (\<exists>seg. extract_htaccess_part ''# END m|x|# BEGIN m'' ''m''
         = Inr (''# BEGIN m'' @ [CHR 0x0A] @ seg @ [CHR 0x0A] @ ''# END m''))"
  using extract_htaccess_part_amended [of "''x# BEGIN m|a|# END m|y''" "''m''" 1 3]
    extract_htaccess_part_amended [of "''no marker here''" "''m''" 0 0]
    extract_htaccess_part_amended [of "''# END m|x|# BEGIN m''" "''m''" 0 0]
  by (simp add: py_in_def)

section \<open>Results for the type resolver\<close>

lemma types_empty_key: "types [] = None"
  by (simp add: types_def types_table_def)

lemma types_range: "types t = Some c \<Longrightarrow> c \<in> set canonical_types"
proof -
  assume "types t = Some c"
  then have "(t, c) \<in> set types_table" by (simp add: types_def map_of_SomeD)
  then have "snd (t, c) \<in> snd ` set types_table" by (rule imageI)
  then show ?thesis by (simp add: canonical_types_def)
qed

lemma canonical_types_count: "length canonical_types = 22"
  by (simp add: canonical_types_def types_table_def box_type_defs)

text \<open>
  Claim C9: for an element whose \<open>jcr:primaryType\<close> is \<open>t\<close>, \<open>set_type\<close> assigns the
  canonical tag of \<open>t\<close> when \<open>t\<close> is a key of the table (the tag is one of the 22
  canonical ones), assigns \<open>t\<close> itself when \<open>t\<close> is not empty and not in the table, and
  leaves the box as it is when the identifier is missing; in that last case the
  constructor returns a box with empty type and empty content without calling
  \<open>set_content\<close>, whatever \<open>set_content\<close> is. Resolving a second time changes nothing.
\<close>

theorem set_type_resolves:
  "(\<forall>c. getAttribute element ''jcr:primaryType'' = t \<and> types t = Some c \<longrightarrow>
        box_type (set_type self element) = c \<and> c \<in> set canonical_types)
   \<and> (getAttribute element ''jcr:primaryType'' = t \<and> t \<noteq> [] \<and> types t = None \<longrightarrow>
        box_type (set_type self element) = t)
   \<and> (getAttribute element ''jcr:primaryType'' = [] \<longrightarrow>
        set_type self element = self
        \<and> (\<exists>b. Box_init set_content element multibox = Inr b
                \<and> box_type b = [] \<and> content b = []))
   \<and> set_type (set_type self element) element = set_type self element"
proof (intro conjI allI impI)
  fix c
  assume h: "getAttribute element ''jcr:primaryType'' = t \<and> types t = Some c"
  then have "t \<noteq> []" using types_empty_key by auto
  with h show "box_type (set_type self element) = c" by (simp add: set_type_def)
  from h show "c \<in> set canonical_types" using types_range by blast
next
  assume "getAttribute element ''jcr:primaryType'' = t \<and> t \<noteq> [] \<and> types t = None"
  then show "box_type (set_type self element) = t" by (simp add: set_type_def)
next
  assume "getAttribute element ''jcr:primaryType'' = []"
  then show "set_type self element = self" by (simp add: set_type_def)
next
  assume "getAttribute element ''jcr:primaryType'' = []"
  then show "\<exists>b. Box_init set_content element multibox = Inr b \<and> box_type b = [] \<and> content b = []"
    by (simp add: Box_init_def set_type_def)
next
  show "set_type (set_type self element) element = set_type self element"
    by (simp add: set_type_def Let_def split: option.splits)
qed

theorem set_type_resolves_witness:
  "types ''epfl:smallButtonsBox'' = Some ''buttons_box''
   \<and> box_type (set_type \<lparr>box_type = [], shortcode_name = [], title = [], content = [],
        is_in_sidebar = False, shortcode_attributes_to_fix = []\<rparr>
      (Element ''main'' [(''jcr:primaryType'', ''epfl:smallButtonsBox'')] [])) = ''buttons_box''
   \<and> ''buttons_box'' \<in> set canonical_types
   \<and> types ''epfl:fancyBox'' = None
   \<and> box_type (set_type \<lparr>box_type = [], shortcode_name = [], title = [], content = [],
        is_in_sidebar = False, shortcode_attributes_to_fix = []\<rparr>
      (Element ''main'' [(''jcr:primaryType'', ''epfl:fancyBox'')] [])) = ''epfl:fancyBox''
   \<and> getAttribute (Element ''main'' [] []) ''jcr:primaryType'' = []
   \<and> (\<exists>b. Box_init (\<lambda>b e m. Inr (b\<lparr>content := ''x''\<rparr>)) (Element ''main'' [] []) False = Inr b
          \<and> box_type b = [] \<and> content b = [])"
  using set_type_resolves [of "Element ''main'' [(''jcr:primaryType'', ''epfl:smallButtonsBox'')] []"
      "''epfl:smallButtonsBox''"
      "\<lparr>box_type = [], shortcode_name = [], title = [], content = [],
        is_in_sidebar = False, shortcode_attributes_to_fix = []\<rparr>"]
    set_type_resolves [of "Element ''main'' [(''jcr:primaryType'', ''epfl:fancyBox'')] []"
      "''epfl:fancyBox''"
      "\<lparr>box_type = [], shortcode_name = [], title = [], content = [],
        is_in_sidebar = False, shortcode_attributes_to_fix = []\<rparr>"]
    set_type_resolves [of "Element ''main'' [] []" "[]" _ "\<lambda>b e m. Inr (b\<lparr>content := ''x''\<rparr>)" False]
  by (simp add: types_def types_table_def box_type_defs)

section \<open>Results for the scheduler wrapper\<close>

lemma scheduler_date_total: "\<exists>x. scheduler_date d = Inr x"
  by (simp add: scheduler_date_def py_nth_0_split)

lemma scheduler_time_total: "\<exists>x. scheduler_time d = Inr x"
proof (cases "py_find ''T'' d")
  case None
  then show ?thesis by (simp add: scheduler_time_def py_in_def)
next
  case (Some i)
  have "''T'' \<noteq> []" by simp
  from py_nth_1_split [OF this Some] Some show ?thesis
    by (simp add: scheduler_time_def py_in_def)
qed

text \<open>
  Claim C5: \<open>_set_scheduler_box\<close> returns the content unwrapped when \<open>validFrom\<close> and
  \<open>validTo\<close> are both empty; returns it unwrapped when there is a start date (the part
  of \<open>validFrom\<close> before \<open>T\<close>) strictly before the processing date and no end date; and
  when there is an end date and no start date it returns the content inside
  \<open>[epfl_scheduler start_date="..." end_date="..." start_time="..." end_time="..."]\<close>
  and \<open>[/epfl_scheduler]\<close>, where \<open>start_date\<close> is the processing date and the other
  three attributes are the end date and the two times read from the element. It never
  raises in these cases.
\<close>

theorem set_scheduler_box_cases:
  "(get_tag_attribute element ''comboList'' ''jahia:validFrom'' = []
      \<and> get_tag_attribute element ''comboList'' ''jahia:validTo'' = [] \<longrightarrow>
      set_scheduler_box today self element cont
        = Inr (self\<lparr>shortcode_name := ''epfl_scheduler''\<rparr>, cont))
   \<and> (scheduler_date (get_tag_attribute element ''comboList'' ''jahia:validFrom'') = Inr start_date
      \<and> start_date \<noteq> [] \<and> start_date < today
      \<and> scheduler_date (get_tag_attribute element ''comboList'' ''jahia:validTo'') = Inr [] \<longrightarrow>
      set_scheduler_box today self element cont
        = Inr (self\<lparr>shortcode_name := ''epfl_scheduler''\<rparr>, cont))
   \<and> (scheduler_date (get_tag_attribute element ''comboList'' ''jahia:validFrom'') = Inr []
      \<and> scheduler_date (get_tag_attribute element ''comboList'' ''jahia:validTo'') = Inr end_date
      \<and> end_date \<noteq> [] \<longrightarrow>
      (\<exists>start_time end_time.
        scheduler_time (get_tag_attribute element ''comboList'' ''jahia:validFrom'') = Inr start_time
        \<and> scheduler_time (get_tag_attribute element ''comboList'' ''jahia:validTo'') = Inr end_time
        \<and> set_scheduler_box today self element cont
          = Inr (self\<lparr>shortcode_name := ''epfl_scheduler''\<rparr>,
                 ''[epfl_scheduler start_date=\"'' @ today @ ''\" end_date=\"'' @ end_date
                 @ ''\" start_time=\"'' @ start_time @ ''\" end_time=\"'' @ end_time
                 @ ''\"]'' @ cont @ ''[/epfl_scheduler]'')))"
proof (intro conjI impI)
  assume "get_tag_attribute element ''comboList'' ''jahia:validFrom'' = []
      \<and> get_tag_attribute element ''comboList'' ''jahia:validTo'' = []"
  then show "set_scheduler_box today self element cont
        = Inr (self\<lparr>shortcode_name := ''epfl_scheduler''\<rparr>, cont)"
    by (simp add: set_scheduler_box_def)
next
  assume h: "scheduler_date (get_tag_attribute element ''comboList'' ''jahia:validFrom'') = Inr start_date
      \<and> start_date \<noteq> [] \<and> start_date < today
      \<and> scheduler_date (get_tag_attribute element ''comboList'' ''jahia:validTo'') = Inr []"
  obtain st where st: "scheduler_time (get_tag_attribute element ''comboList'' ''jahia:validFrom'') = Inr st"
    using scheduler_time_total by blast
  obtain et where et: "scheduler_time (get_tag_attribute element ''comboList'' ''jahia:validTo'') = Inr et"
    using scheduler_time_total by blast
  from h st et show "set_scheduler_box today self element cont
        = Inr (self\<lparr>shortcode_name := ''epfl_scheduler''\<rparr>, cont)"
    by (simp add: set_scheduler_box_def Let_def)
next
  assume h: "scheduler_date (get_tag_attribute element ''comboList'' ''jahia:validFrom'') = Inr []
      \<and> scheduler_date (get_tag_attribute element ''comboList'' ''jahia:validTo'') = Inr end_date
      \<and> end_date \<noteq> []"
  obtain st where st: "scheduler_time (get_tag_attribute element ''comboList'' ''jahia:validFrom'') = Inr st"
    using scheduler_time_total by blast
  obtain et where et: "scheduler_time (get_tag_attribute element ''comboList'' ''jahia:validTo'') = Inr et"
    using scheduler_time_total by blast
  have ne: "get_tag_attribute element ''comboList'' ''jahia:validTo'' \<noteq> []"
  proof
    assume "get_tag_attribute element ''comboList'' ''jahia:validTo'' = []"
    then have "scheduler_date (get_tag_attribute element ''comboList'' ''jahia:validTo'') = Inr []"
      by (simp add: scheduler_date_def py_in_def)
    with h show False by auto
  qed
  from h st et ne have "set_scheduler_box today self element cont
          = Inr (self\<lparr>shortcode_name := ''epfl_scheduler''\<rparr>,
                 ''[epfl_scheduler start_date=\"'' @ today @ ''\" end_date=\"'' @ end_date
                 @ ''\" start_time=\"'' @ st @ ''\" end_time=\"'' @ et
                 @ ''\"]'' @ cont @ ''[/epfl_scheduler]'')"
    by (simp add: set_scheduler_box_def Let_def)
  with st et show "\<exists>start_time end_time.
        scheduler_time (get_tag_attribute element ''comboList'' ''jahia:validFrom'') = Inr start_time
        \<and> scheduler_time (get_tag_attribute element ''comboList'' ''jahia:validTo'') = Inr end_time
        \<and> set_scheduler_box today self element cont
          = Inr (self\<lparr>shortcode_name := ''epfl_scheduler''\<rparr>,
                 ''[epfl_scheduler start_date=\"'' @ today @ ''\" end_date=\"'' @ end_date
                 @ ''\" start_time=\"'' @ start_time @ ''\" end_time=\"'' @ end_time
                 @ ''\"]'' @ cont @ ''[/epfl_scheduler]'')"
    by blast
qed

theorem set_scheduler_box_cases_witness:
  "set_scheduler_box ''2018-11-03''
      \<lparr>box_type = ''text'', shortcode_name = [], title = [], content = [],
        is_in_sidebar = False, shortcode_attributes_to_fix = []\<rparr>
      (Element ''main'' [] [Element ''comboList'' [] []]) ''hello''
     = Inr (\<lparr>box_type = ''text'', shortcode_name = ''epfl_scheduler'', title = [], content = [],
        is_in_sidebar = False, shortcode_attributes_to_fix = []\<rparr>, ''hello'')
   \<and> scheduler_date ''2017-03-01T10:00:00'' = Inr ''2017-03-01''
   \<and> ''2017-03-01'' < ''2018-11-03''
   \<and> set_scheduler_box ''2018-11-03''
      \<lparr>box_type = ''text'', shortcode_name = [], title = [], content = [],
        is_in_sidebar = False, shortcode_attributes_to_fix = []\<rparr>
      (Element ''main'' []
        [Element ''comboList'' [(''jahia:validFrom'', ''2017-03-01T10:00:00'')] []]) ''hello''
     = Inr (\<lparr>box_type = ''text'', shortcode_name = ''epfl_scheduler'', title = [], content = [],
        is_in_sidebar = False, shortcode_attributes_to_fix = []\<rparr>, ''hello'')
   \<and> scheduler_date ''2030-01-01T12:00:00'' = Inr ''2030-01-01''
   \<and> scheduler_time ''2030-01-01T12:00:00'' = Inr ''12:00:00''
   \<and> set_scheduler_box ''2018-11-03''
      \<lparr>box_type = ''text'', shortcode_name = [], title = [], content = [],
        is_in_sidebar = False, shortcode_attributes_to_fix = []\<rparr>
      (Element ''main'' []
        [Element ''comboList'' [(''jahia:validTo'', ''2030-01-01T12:00:00'')] []]) ''hello''
     = Inr (\<lparr>box_type = ''text'', shortcode_name = ''epfl_scheduler'', title = [], content = [],
        is_in_sidebar = False, shortcode_attributes_to_fix = []\<rparr>,
            ''[epfl_scheduler start_date=\"2018-11-03\" end_date=\"2030-01-01\" start_time=\"\" end_time=\"12:00:00\"]hello[/epfl_scheduler]'')"
  using set_scheduler_box_cases [of "Element ''main'' [] [Element ''comboList'' [] []]"
      "''2018-11-03''"
      "\<lparr>box_type = ''text'', shortcode_name = [], title = [], content = [],
        is_in_sidebar = False, shortcode_attributes_to_fix = []\<rparr>" "''hello''"]
    set_scheduler_box_cases [of "Element ''main'' []
        [Element ''comboList'' [(''jahia:validFrom'', ''2017-03-01T10:00:00'')] []]"
      "''2018-11-03''"
      "\<lparr>box_type = ''text'', shortcode_name = [], title = [], content = [],
        is_in_sidebar = False, shortcode_attributes_to_fix = []\<rparr>" "''hello''" "''2017-03-01''"]
    set_scheduler_box_cases [of "Element ''main'' []
        [Element ''comboList'' [(''jahia:validTo'', ''2030-01-01T12:00:00'')] []]"
      "''2018-11-03''"
      "\<lparr>box_type = ''text'', shortcode_name = [], title = [], content = [],
        is_in_sidebar = False, shortcode_attributes_to_fix = []\<rparr>" "''hello''" _ "''2030-01-01''"]
  by (simp add: get_tag_attribute_def getElementsByTagName_def scheduler_date_def
      scheduler_time_def py_in_def py_split.simps py_nth_def)

section \<open>Results for the news parameters\<close>

text \<open>
  Claim C8 at the parameters of
  \<^verbatim>\<open>https://actu.epfl.ch/webservice?channel=10&lang=en&template=4&themes=1\<close>: the
  function tests the key \<open>themes\<close> and then reads the key \<open>theme\<close>, which is absent,
  and raises KeyError.
\<close>

theorem extract_epfl_news_parameters_themes_raises:
  "extract_epfl_news_parameters
     (map_of [(''channel'', [''10'']), (''lang'', [''en'']), (''template'', [''4'']),
              (''themes'', [''1''])]) = Inl KeyError"
  by (simp add: extract_epfl_news_parameters_def first_value_def dict_get_def py_nth_def)

section \<open>Facts about sorted groups with index keys\<close>









section \<open>Results for the link list\<close>











section \<open>Results for the combo text box\<close>

text \<open>
  Claim C1 on a combo box with sort descriptor \<open>created;desc;true;true\<close> and two
  entries, the first with \<open>jcr:created\<close> and the second without: the first entry
  keeps its string key when the second falls back to the index key \<open>0\<close>, and sorting
  the dictionary with keys of both kinds raises TypeError.
\<close>

theorem set_box_text_mixed_keys_raises:
  "fold_err (combo_step
        \<lparr>pages_by_uuid = Map.empty, page_language = ''en'', processing_date = ''2018-11-03'',
         handle_custom_chars = (\<lambda>s. s), jahia_resource_default_value = (\<lambda>s. Inr None),
         twitter_timeline_transform = (\<lambda>s. Inr s)\<rparr> ''created'')
      \<lparr>cs_sort_infos = ''created;desc;true;true'', cs_sort_way = ''desc'',
       cs_box_index = 0, cs_box_list = []\<rparr>
      [Element ''comboList'' [(''jcr:created'', ''2018-01-01'')]
         [Element ''text'' [(''jahia:value'', ''A'')] []],
       Element ''comboList'' [] [Element ''text'' [(''jahia:value'', ''B'')] []]]
     = Inr \<lparr>cs_sort_infos = [], cs_sort_way = ''asc'', cs_box_index = 1,
            cs_box_list = [(StrKey ''2018-01-01'', ''A''), (IntKey 0, ''B'')]\<rparr>
   \<and> set_box_text
       \<lparr>pages_by_uuid = Map.empty, page_language = ''en'', processing_date = ''2018-11-03'',
        handle_custom_chars = (\<lambda>s. s), jahia_resource_default_value = (\<lambda>s. Inr None),
        twitter_timeline_transform = (\<lambda>s. Inr s)\<rparr>
       \<lparr>box_type = ''text'', shortcode_name = [], title = [], content = [],
        is_in_sidebar = False, shortcode_attributes_to_fix = []\<rparr>
       (Element ''main'' [(''jcr:primaryType'', ''epfl:textBox'')]
         [Element ''comboListList'' [(''jahia:sortHandler'', ''created;desc;true;true'')]
            [Element ''comboList'' [(''jcr:created'', ''2018-01-01'')]
               [Element ''text'' [(''jahia:value'', ''A'')] []],
             Element ''comboList'' [] [Element ''text'' [(''jahia:value'', ''B'')] []]]])
       True
     = Inl TypeError"
  by (simp add: set_box_text_def combo_step_def parse_links_to_list_def parse_files_to_list_def
      get_tag_attribute_def getElementsByTagName_def BoxSortedGroup_def get_sorted_boxes_def
      sort_items_def sort_way_of_def py_split.simps py_nth_def py_sorted_items_def)

section \<open>Results for the buttons box\<close>

lemma item_sort_value_missing:
  assumes "tag \<noteq> []"
    and "getElementsByTagName item tag = []
         \<or> getAttribute (hd (getElementsByTagName item tag)) ''jahia:title'' = []"
  shows "item_sort_value (Some tag) item g = Inl SortException"
  using assms by (cases "getElementsByTagName item tag") (auto simp: item_sort_value_def)

lemma button_loop_fails:
  assumes "tag \<noteq> []"
    and "item \<in> set items"
    and "getElementsByTagName item tag = []
         \<or> getAttribute (hd (getElementsByTagName item tag)) ''jahia:title'' = []"
  shows "\<exists>err. fold_err (button_step env k (Some tag)) g items = Inl err"
  using assms(2)
proof (induction items arbitrary: g)
  case Nil
  then show ?case by simp
next
  case (Cons x xs)
  show ?case
  proof (cases "button_step env k (Some tag) g x")
    case (Inl err)
    then show ?thesis by simp
  next
    case (Inr g')
    have "x \<noteq> item"
    proof
      assume "x = item"
      with item_sort_value_missing [OF assms(1) assms(3), of g] Inr show False
        by (simp add: button_step_def)
    qed
    with Cons.prems have "item \<in> set xs" by auto
    from Cons.IH [OF this, of g'] Inr show ?thesis by simp
  qed
qed

text \<open>
  Claim C3: when the button container carries a non-empty sort descriptor and some
  button item lacks the sort tag named by it, or the first such tag has an empty
  \<open>jahia:title\<close>, \<open>set_box_buttons\<close> ends with an exception and the content of the
  box is what it was before the call: the empty string on a box just constructed.
\<close>

theorem set_box_buttons_missing_sort_value:
  assumes "getElementsByTagName element (buttons_container_name (buttons_kind element))
             = container # others"
    and "getAttribute container ''jahia:sortHandler'' \<noteq> []"
    and "item \<in> set (getElementsByTagName element (buttons_element_name (buttons_kind element)))"
    and "getElementsByTagName item
             (''jahia:'' @ sort_tag_of (getAttribute container ''jahia:sortHandler'')) = []
         \<or> getAttribute (hd (getElementsByTagName item
             (''jahia:'' @ sort_tag_of (getAttribute container ''jahia:sortHandler''))))
             ''jahia:title'' = []"
  shows "(\<exists>err. snd (set_box_buttons env self element) = Some err)
         \<and> content (fst (set_box_buttons env self element)) = content self
         \<and> (content self = [] \<longrightarrow> content (fst (set_box_buttons env self element)) = [])"
proof -
  let ?sp = "getAttribute container ''jahia:sortHandler''"
  let ?tag = "''jahia:'' @ sort_tag_of ?sp"
  have tag: "?tag \<noteq> []" by simp
  have "\<exists>err. buttons_content env element = Inl err"
  proof (cases "sort_way_of ?sp")
    case (Inl err)
    with assms(1,2) show ?thesis by (simp add: buttons_content_def Let_def py_nth_def)
  next
    case (Inr way)
    from button_loop_fails [OF tag assms(3) assms(4)]
    obtain err where "fold_err (button_step env (buttons_kind element) (Some ?tag))
        (BoxSortedGroup [] [] way)
        (getElementsByTagName element (buttons_element_name (buttons_kind element))) = Inl err"
      by blast
    with Inr assms(1,2) show ?thesis by (simp add: buttons_content_def Let_def py_nth_def)
  qed
  then obtain err where "buttons_content env element = Inl err" by blast
  then show ?thesis by (simp add: set_box_buttons_def Let_def)
qed

theorem set_box_buttons_missing_sort_value_witness:
  "set_box_buttons
       \<lparr>pages_by_uuid = Map.empty, page_language = ''en'', processing_date = ''2018-11-03'',
        handle_custom_chars = (\<lambda>s. s), jahia_resource_default_value = (\<lambda>s. Inr None),
        twitter_timeline_transform = (\<lambda>s. Inr s)\<rparr>
       \<lparr>box_type = ''buttons_box'', shortcode_name = [], title = ''Links'', content = [],
        is_in_sidebar = False, shortcode_attributes_to_fix = []\<rparr>
       (Element ''main'' [(''jcr:primaryType'', ''epfl:bigButtonsBox'')]
         [Element ''bigButtonListList''
            [(''jahia:sortHandler'', ''epfl_simple_main_bigButtonList_url;desc;false;false'')]
            [Element ''bigButtonList'' []
               [Element ''label'' [(''jahia:value'', ''L1'')] [],
                Element ''url'' []
                  [Element ''jahia:url'' [(''jahia:value'', ''http://a''), (''jahia:title'', ''T1'')] []]],
             Element ''bigButtonList'' []
               [Element ''label'' [(''jahia:value'', ''L2'')] [],
                Element ''url'' [] [Element ''jahia:url'' [(''jahia:value'', ''http://b'')] []]]]])
     = (\<lparr>box_type = ''buttons_box'', shortcode_name = ''epfl_buttons'', title = ''Links'',
         content = [], is_in_sidebar = False, shortcode_attributes_to_fix = []\<rparr>,
        Some SortException)"
  using set_box_buttons_missing_sort_value [of
      "Element ''main'' [(''jcr:primaryType'', ''epfl:bigButtonsBox'')]
         [Element ''bigButtonListList''
            [(''jahia:sortHandler'', ''epfl_simple_main_bigButtonList_url;desc;false;false'')]
            [Element ''bigButtonList'' []
               [Element ''label'' [(''jahia:value'', ''L1'')] [],
                Element ''url'' []
                  [Element ''jahia:url'' [(''jahia:value'', ''http://a''), (''jahia:title'', ''T1'')] []]],
             Element ''bigButtonList'' []
               [Element ''label'' [(''jahia:value'', ''L2'')] [],
                Element ''url'' [] [Element ''jahia:url'' [(''jahia:value'', ''http://b'')] []]]]]"
      "Element ''bigButtonListList''
            [(''jahia:sortHandler'', ''epfl_simple_main_bigButtonList_url;desc;false;false'')]
            [Element ''bigButtonList'' []
               [Element ''label'' [(''jahia:value'', ''L1'')] [],
                Element ''url'' []
                  [Element ''jahia:url'' [(''jahia:value'', ''http://a''), (''jahia:title'', ''T1'')] []]],
             Element ''bigButtonList'' []
               [Element ''label'' [(''jahia:value'', ''L2'')] [],
                Element ''url'' [] [Element ''jahia:url'' [(''jahia:value'', ''http://b'')] []]]]"
      "[]"
      "Element ''bigButtonList'' []
               [Element ''label'' [(''jahia:value'', ''L2'')] [],
                Element ''url'' [] [Element ''jahia:url'' [(''jahia:value'', ''http://b'')] []]]"
      "\<lparr>pages_by_uuid = Map.empty, page_language = ''en'', processing_date = ''2018-11-03'',
        handle_custom_chars = (\<lambda>s. s), jahia_resource_default_value = (\<lambda>s. Inr None),
        twitter_timeline_transform = (\<lambda>s. Inr s)\<rparr>"
      "\<lparr>box_type = ''buttons_box'', shortcode_name = [], title = ''Links'', content = [],
        is_in_sidebar = False, shortcode_attributes_to_fix = []\<rparr>"]
  by (simp add: set_box_buttons_def buttons_content_def buttons_kind_def buttons_container_name_def
      buttons_element_name_def getElementsByTagName_def py_in_def py_nth_def sort_way_of_def
      sort_tag_of_def py_split.simps BoxSortedGroup_def button_step_def item_sort_value_def
      button_child_step_def big_button_tag_step_def add_box_to_sort_def get_button_shortcode_def)

section \<open>Results for the snippets box\<close>










section \<open>Results for the video fixup\<close>

lemma py_in_iff: "py_in sub s \<longleftrightarrow> (\<exists>pre post. s = pre @ sub @ post)"
proof
  assume "py_in sub s"
  then obtain i where i: "py_find sub s = Some i" by (auto simp: py_in_def)
  from py_find_prefix [OF i] obtain post where "drop i s = sub @ post" by (auto simp: prefix_def)
  then have "s = take i s @ sub @ post" by (metis append_take_drop_id)
  then show "\<exists>pre post. s = pre @ sub @ post" by blast
next
  assume "\<exists>pre post. s = pre @ sub @ post"
  then obtain pre post where s: "s = pre @ sub @ post" by blast
  then have "prefix sub (drop (length pre) s)" "length pre \<le> length s" by simp_all
  from py_find_occurs [OF this] show "py_in sub s" by (simp add: py_in_def)
qed

lemma url_host_part: "\<exists>pre post. u = pre @ url_host u @ post"
proof -
  define rest where "rest = (case py_find ''://'' u of Some i \<Rightarrow> drop (i + 3) u | None \<Rightarrow> u)"
  have "\<exists>pre. u = pre @ rest"
  proof (cases "py_find ''://'' u")
    case None
    then show ?thesis by (simp add: rest_def)
  next
    case (Some i)
    then have "u = take (i + 3) u @ rest" by (simp add: rest_def)
    then show ?thesis by blast
  qed
  then obtain pre where "u = pre @ rest" by blast
  moreover have "rest = url_host u @ dropWhile (\<lambda>c. c \<noteq> CHR ''/'' \<and> c \<noteq> CHR ''?'' \<and> c \<noteq> CHR ''#'') rest"
    by (simp add: url_host_def rest_def)
  ultimately show ?thesis by metis
qed

lemma host_allowed_video_src:
  assumes "host_allowed (url_host u)"
  shows "is_video_src (Some u)"
proof -
  from assms obtain d where d: "d \<in> set video_hosts"
    "url_host u = d \<or> suffix (''.'' @ d) (url_host u)"
    by (auto simp: host_allowed_def list_ex_iff)
  from d(2) obtain x where x: "url_host u = x @ d" by (auto simp: suffix_def)
  from url_host_part [of u] obtain pre post where "u = pre @ url_host u @ post" by blast
  with x have u: "u = (pre @ x) @ d @ post" by simp
  then have "py_in d u" using py_in_iff by blast
  moreover from d(1) have "d \<noteq> []" by (auto simp: video_hosts_def)
  with u have "u \<noteq> []" by auto
  ultimately show ?thesis using d(1) by (auto simp: is_video_src_def video_hosts_def)
qed

lemma video_iframes_Element:
  "video_iframes (Element t as cs) =
     (if t = ''iframe'' \<and> is_video_src (map_of as ''src'') then [Element t as cs] else [])
     @ concat (map video_iframes cs)"
proof -
  define P where
    "P = (\<lambda>n. is_element_node n \<and> tagName n = ''iframe'' \<and> is_video_src (tag_get n ''src''))"
  have v: "video_iframes c = filter P (c # descendants c)" for c
    by (simp only: video_iframes_def P_def)
  have "filter P (descendants (Element t as cs))
        = concat (map (\<lambda>c. filter P (c # descendants c)) cs)"
    by (simp only: descendants.simps filter_concat map_map comp_def)
  also have "\<dots> = concat (map video_iframes cs)"
    by (simp only: v [symmetric])
  finally have d: "filter P (descendants (Element t as cs)) = concat (map video_iframes cs)" .
  have "video_iframes (Element t as cs)
        = (if P (Element t as cs) then [Element t as cs] else [])
          @ filter P (descendants (Element t as cs))"
    by (simp only: v filter.simps split: if_splits) simp
  with d show ?thesis by (simp add: P_def)
qed

lemma video_iframes_TextNode: "video_iframes (TextNode s) = []"
  by (simp add: video_iframes_def)

lemma replace_without_video_iframes: "video_iframes d = [] \<Longrightarrow> replace_video_iframes d = d"
proof (induction d)
  case (Element t as cs)
  from Element.prems have nv: "\<not> (t = ''iframe'' \<and> is_video_src (map_of as ''src''))"
    and ch: "\<forall>c \<in> set cs. video_iframes c = []"
    by (auto simp: video_iframes_Element split: if_splits)
  with Element.IH have "map replace_video_iframes cs = cs" by (simp add: map_idI)
  with nv show ?case by simp
next
  case (TextNode s)
  then show ?case by simp
qed

lemma no_video_iframes_after: "video_iframes (replace_video_iframes d) = []"
proof (induction d)
  case (Element t as cs)
  show ?case
  proof (cases "t = ''iframe'' \<and> is_video_src (map_of as ''src'')")
    case True
    then show ?thesis by (simp add: video_iframes_TextNode)
  next
    case False
    with Element.IH show ?thesis
      by (auto simp: video_iframes_Element video_iframes_TextNode)
  qed
next
  case (TextNode s)
  then show ?case by (simp add: video_iframes_TextNode)
qed

text \<open>
  Claim C6, as stated, on an iframe whose \<open>src\<close> has the host \<open>example.com\<close>, outside
  the allow-list, and \<open>youtube.com\<close> in its query: the iframe is replaced by the
  shortcode.
\<close>

theorem fix_video_iframes_counterexample:
  "url_host ''https://example.com/watch?u=youtube.com'' = ''example.com''
   \<and> \<not> host_allowed (url_host ''https://example.com/watch?u=youtube.com'')
   \<and> replace_video_iframes
        (Element ''iframe'' [(''src'', ''https://example.com/watch?u=youtube.com'')] [])
       = TextNode ''[epfl_video url=\"https://example.com/watch?u=youtube.com\"]''"
  by (simp add: host_allowed_def url_host_def video_hosts_def suffix_to_prefix
      is_video_src_def py_in_def video_shortcode_def)

lemma subtree_after_replace:
  "visible_at d p = Some n \<Longrightarrow>
   subtree_at (replace_video_iframes d) p = Some (replace_video_iframes n)"
proof (induction p arbitrary: d)
  case Nil
  then show ?case by simp
next
  case (Cons i q)
  show ?case
  proof (cases d)
    case (TextNode s)
    with Cons.prems show ?thesis by simp
  next
    case (Element t as cs)
    with Cons.prems have nv: "\<not> (t = ''iframe'' \<and> is_video_src (map_of as ''src''))"
      and i: "i < length cs" and v: "visible_at (cs ! i) q = Some n"
      by (auto split: if_splits)
    from Cons.IH [OF v] i nv Element show ?thesis by simp
  qed
qed

lemma is_video_src_iff:
  "is_video_src src \<longleftrightarrow>
     (\<exists>v. src = Some v \<and> v \<noteq> [] \<and> (py_in ''youtube.com'' v \<or> py_in ''youtu.be'' v \<or> py_in ''player.vimeo.com'' v))"
  by (cases src) (auto simp: is_video_src_def)

text \<open>
  Claim C6, amended: \<open>fix_video_iframes\<close> writes back the parsed content in which an
  iframe (at any position not below a replaced iframe) is replaced by a single
  \<open>[epfl_video url="..."]\<close> text node carrying its \<open>src\<close> if and only if the \<open>src\<close>
  is not empty and contains \<open>youtube.com\<close>, \<open>youtu.be\<close> or \<open>player.vimeo.com\<close>
  anywhere, compared as written; in particular every iframe whose \<open>src\<close> host is one
  of these hosts or a subdomain of one is replaced. Every other element, so every other
  iframe, keeps its place, its tag, its attributes and the number of its children; a
  node with no such iframe in it is left untouched; and no such iframe remains after the
  fixup.
\<close>

theorem fix_video_iframes_substring:
  "fix_video_iframes parse render self
     = self\<lparr>content := render (replace_video_iframes (parse (content self)))\<rparr>
   \<and> (visible_at d p = Some (Element ''iframe'' as cs) \<and> map_of as ''src'' = Some u
        \<and> u \<noteq> [] \<and> (py_in ''youtube.com'' u \<or> py_in ''youtu.be'' u \<or> py_in ''player.vimeo.com'' u) \<longrightarrow>
      subtree_at (replace_video_iframes d) p
        = Some (TextNode (''[epfl_video url=\"'' @ u @ ''\"]'')))
   \<and> (visible_at d p = Some (Element ''iframe'' as cs) \<and> map_of as ''src'' = Some u
        \<and> host_allowed (url_host u) \<longrightarrow>
      subtree_at (replace_video_iframes d) p
        = Some (TextNode (''[epfl_video url=\"'' @ u @ ''\"]'')))
   \<and> (visible_at d p = Some (Element t as cs)
        \<and> \<not> (t = ''iframe''
              \<and> (\<exists>v. map_of as ''src'' = Some v \<and> v \<noteq> [] \<and> (py_in ''youtube.com'' v \<or> py_in ''youtu.be'' v \<or> py_in ''player.vimeo.com'' v))) \<longrightarrow>
      (\<exists>cs'. subtree_at (replace_video_iframes d) p = Some (Element t as cs')
             \<and> length cs' = length cs))
   \<and> (visible_at d p = Some n \<and> video_iframes n = [] \<longrightarrow>
      subtree_at (replace_video_iframes d) p = Some n)
   \<and> video_iframes (replace_video_iframes d) = []"
proof (intro conjI impI)
  show "fix_video_iframes parse render self
     = self\<lparr>content := render (replace_video_iframes (parse (content self)))\<rparr>"
    by (simp add: fix_video_iframes_def)
next
  assume h: "visible_at d p = Some (Element ''iframe'' as cs) \<and> map_of as ''src'' = Some u
        \<and> u \<noteq> [] \<and> (py_in ''youtube.com'' u \<or> py_in ''youtu.be'' u \<or> py_in ''player.vimeo.com'' u)"
  then have "is_video_src (map_of as ''src'')" by (simp add: is_video_src_iff)
  with h subtree_after_replace [of d p "Element ''iframe'' as cs"]
  show "subtree_at (replace_video_iframes d) p
        = Some (TextNode (''[epfl_video url=\"'' @ u @ ''\"]''))"
    by (simp add: video_shortcode_def)
next
  assume h: "visible_at d p = Some (Element ''iframe'' as cs) \<and> map_of as ''src'' = Some u
        \<and> host_allowed (url_host u)"
  then have "is_video_src (map_of as ''src'')" using host_allowed_video_src [of u] by simp
  with h subtree_after_replace [of d p "Element ''iframe'' as cs"]
  show "subtree_at (replace_video_iframes d) p
        = Some (TextNode (''[epfl_video url=\"'' @ u @ ''\"]''))"
    by (simp add: video_shortcode_def)
next
  assume h: "visible_at d p = Some (Element t as cs)
        \<and> \<not> (t = ''iframe''
              \<and> (\<exists>v. map_of as ''src'' = Some v \<and> v \<noteq> [] \<and> (py_in ''youtube.com'' v \<or> py_in ''youtu.be'' v \<or> py_in ''player.vimeo.com'' v)))"
  then have "\<not> (t = ''iframe'' \<and> is_video_src (map_of as ''src''))"
    by (simp add: is_video_src_iff)
  with h subtree_after_replace [of d p "Element t as cs"]
  have "subtree_at (replace_video_iframes d) p
        = Some (Element t as (map replace_video_iframes cs))"
    by auto
  then show "\<exists>cs'. subtree_at (replace_video_iframes d) p = Some (Element t as cs')
             \<and> length cs' = length cs"
    by simp
next
  assume h: "visible_at d p = Some n \<and> video_iframes n = []"
  with subtree_after_replace [of d p n] replace_without_video_iframes [of n]
  show "subtree_at (replace_video_iframes d) p = Some n" by simp
next
  show "video_iframes (replace_video_iframes d) = []" by (rule no_video_iframes_after)
qed

theorem fix_video_iframes_substring_witness:
  "content (fix_video_iframes (\<lambda>s. Element ''iframe'' [(''src'', s)] [])
       (\<lambda>d. case d of TextNode s \<Rightarrow> s | Element t as cs \<Rightarrow> t)
       \<lparr>box_type = ''text'', shortcode_name = [], title = [],
          content = ''https://youtu.be/abc'',
          is_in_sidebar = False, shortcode_attributes_to_fix = []\<rparr>)
     = ''[epfl_video url=\"https://youtu.be/abc\"]''
   \<and> visible_at (Element ''body'' []
         [Element ''p'' []
            [TextNode ''a'',
             Element ''iframe'' [(''src'', ''https://www.youtube.com/embed/xyz'')] []],
          Element ''iframe'' [(''src'', ''https://example.org/page'')] [TextNode ''x'']]) [0, 1]
       = Some (Element ''iframe'' [(''src'', ''https://www.youtube.com/embed/xyz'')] [])
   \<and> host_allowed (url_host ''https://www.youtube.com/embed/xyz'')
   \<and> subtree_at (replace_video_iframes (Element ''body'' []
         [Element ''p'' []
            [TextNode ''a'',
             Element ''iframe'' [(''src'', ''https://www.youtube.com/embed/xyz'')] []],
          Element ''iframe'' [(''src'', ''https://example.org/page'')] [TextNode ''x'']])) [0, 1]
       = Some (TextNode ''[epfl_video url=\"https://www.youtube.com/embed/xyz\"]'')
   \<and> visible_at (Element ''body'' []
         [Element ''p'' []
            [TextNode ''a'',
             Element ''iframe'' [(''src'', ''https://www.youtube.com/embed/xyz'')] []],
          Element ''iframe'' [(''src'', ''https://example.org/page'')] [TextNode ''x'']]) [1]
       = Some (Element ''iframe'' [(''src'', ''https://example.org/page'')] [TextNode ''x''])
   \<and> video_iframes (Element ''iframe'' [(''src'', ''https://example.org/page'')] [TextNode ''x'']) = []
   \<and> subtree_at (replace_video_iframes (Element ''body'' []
         [Element ''p'' []
            [TextNode ''a'',
             Element ''iframe'' [(''src'', ''https://www.youtube.com/embed/xyz'')] []],
          Element ''iframe'' [(''src'', ''https://example.org/page'')] [TextNode ''x'']])) [1]
       = Some (Element ''iframe'' [(''src'', ''https://example.org/page'')] [TextNode ''x''])"
proof -
  let ?d = "Element ''body'' []
         [Element ''p'' []
            [TextNode ''a'',
             Element ''iframe'' [(''src'', ''https://www.youtube.com/embed/xyz'')] []],
          Element ''iframe'' [(''src'', ''https://example.org/page'')] [TextNode ''x'']]"
  have v1: "visible_at ?d [0, 1]
       = Some (Element ''iframe'' [(''src'', ''https://www.youtube.com/embed/xyz'')] [])"
    by (simp add: is_video_src_def)
  have h1: "host_allowed (url_host ''https://www.youtube.com/embed/xyz'')"
    by (simp add: host_allowed_def url_host_def video_hosts_def suffix_to_prefix)
  have c1: "''https://www.youtube.com/embed/xyz'' \<noteq> []
      \<and> (py_in ''youtube.com'' ''https://www.youtube.com/embed/xyz''
         \<or> py_in ''youtu.be'' ''https://www.youtube.com/embed/xyz''
         \<or> py_in ''player.vimeo.com'' ''https://www.youtube.com/embed/xyz'')"
    by (simp add: py_in_def)
  have v2: "visible_at ?d [1]
       = Some (Element ''iframe'' [(''src'', ''https://example.org/page'')] [TextNode ''x''])"
    by (simp add: is_video_src_def)
  have n2: "video_iframes (Element ''iframe'' [(''src'', ''https://example.org/page'')] [TextNode ''x'']) = []"
    by (simp add: video_iframes_def is_video_src_def py_in_def)
  note t1 = fix_video_iframes_substring [of "(\<lambda>s. Element ''iframe'' [(''src'', s)] [])"
      "(\<lambda>d. case d of TextNode s \<Rightarrow> s | Element t as cs \<Rightarrow> t)"
      "\<lparr>box_type = ''text'', shortcode_name = [], title = [],
          content = ''https://youtu.be/abc'',
          is_in_sidebar = False, shortcode_attributes_to_fix = []\<rparr>"
      ?d "[0, 1]" "[(''src'', ''https://www.youtube.com/embed/xyz'')]" "[]"
      "''https://www.youtube.com/embed/xyz''"]
  note t2 = fix_video_iframes_substring [of "(\<lambda>s. Element ''iframe'' [(''src'', s)] [])"
      "(\<lambda>d. case d of TextNode s \<Rightarrow> s | Element t as cs \<Rightarrow> t)"
      "\<lparr>box_type = ''text'', shortcode_name = [], title = [],
          content = ''https://youtu.be/abc'',
          is_in_sidebar = False, shortcode_attributes_to_fix = []\<rparr>"
      ?d "[1]" "[(''src'', ''https://example.org/page'')]" "[TextNode ''x'']" "[]" "''iframe''"
      "Element ''iframe'' [(''src'', ''https://example.org/page'')] [TextNode ''x'']"]
  from t1 v1 c1 have r1: "subtree_at (replace_video_iframes ?d) [0, 1]
       = Some (TextNode ''[epfl_video url=\"https://www.youtube.com/embed/xyz\"]'')"
    by simp
  from t2 v2 n2 have r2: "subtree_at (replace_video_iframes ?d) [1]
       = Some (Element ''iframe'' [(''src'', ''https://example.org/page'')] [TextNode ''x''])"
    by blast
  from t1 have r0: "content (fix_video_iframes (\<lambda>s. Element ''iframe'' [(''src'', s)] [])
       (\<lambda>d. case d of TextNode s \<Rightarrow> s | Element t as cs \<Rightarrow> t)
       \<lparr>box_type = ''text'', shortcode_name = [], title = [],
          content = ''https://youtu.be/abc'',
          is_in_sidebar = False, shortcode_attributes_to_fix = []\<rparr>)
     = ''[epfl_video url=\"https://youtu.be/abc\"]''"
    by (simp add: is_video_src_def py_in_def video_shortcode_def)
  from r0 v1 h1 r1 v2 n2 r2 show ?thesis by blast
qed

end
